theory Spec2Isabelle
  imports Complex_Main "HOL-Library.Multiset"
begin

section \<open>The first variant (celestial light intensity system)\<close>

text \<open>
  The script \<^verbatim>\<open>lumoria-light-intensity.js\<close> keeps its own planet objects
  \<^verbatim>\<open>{ name, distance, diameter }\<close> and its own rule, which labels a planet with the
  kind of shadow that falls on it. Numbers are modelled as reals and strings as lists
  of code units, as explained for the data model below.
\<close>

record lumoria_planet =
  name :: string
  distance :: real
  diameter :: real

definition defaultPlanets :: "lumoria_planet list" where
  "defaultPlanets =
     [\<lparr>name = ''Mercuria'', distance = 0.4, diameter = 4879\<rparr>,
      \<lparr>name = ''Venusia'', distance = 0.7, diameter = 12104\<rparr>,
      \<lparr>name = ''Earthia'', distance = 1.0, diameter = 12742\<rparr>,
      \<lparr>name = ''Marsia'', distance = 1.5, diameter = 6779\<rparr>]"

text \<open>The table \<^verbatim>\<open>ShadowType\<close>.\<close>

definition ShadowType_FULL :: string where "ShadowType_FULL = ''Full''"
definition ShadowType_PARTIAL :: string where "ShadowType_PARTIAL = ''Partial''"
definition ShadowType_NONE :: string where "ShadowType_NONE = ''None''"
definition ShadowType_MULTI :: string where "ShadowType_MULTI = ''None (Multiple Shadows)''"

record lumoria_result = lumoria_planet +
  shadow :: string
  closerCount :: nat
  largerCloserCount :: nat
  smallerCloserCount :: nat

text \<open>The callback \<^verbatim>\<open>(planet, idx) => { ... }\<close> of \<^verbatim>\<open>calculateLightIntensities\<close>.\<close>

definition lightIntensitiesEntry :: "lumoria_planet list \<Rightarrow> nat \<times> lumoria_planet \<Rightarrow> lumoria_result" where
  "lightIntensitiesEntry sortedPlanets ip =
     (case ip of (idx, planet) \<Rightarrow>
        (let closer = take idx sortedPlanets;
             largerCloser = filter (\<lambda>p. diameter p > diameter planet) closer;
             smallerCloser = filter (\<lambda>p. diameter p < diameter planet) closer;
             shadowType =
               (if length closer > 1 then ShadowType_MULTI
                else if length largerCloser > 0 then ShadowType_FULL
                else if length smallerCloser > 0 then ShadowType_PARTIAL
                else ShadowType_NONE)
         in \<lparr>name = name planet,
             distance = distance planet,
             diameter = diameter planet,
             shadow = shadowType,
             closerCount = length closer,
             largerCloserCount = length largerCloser,
             smallerCloserCount = length smallerCloser\<rparr>))"

text \<open>
  \<^verbatim>\<open>calculateLightIntensities(sortedPlanets)\<close> expects its argument sorted; its
  callers (\<^verbatim>\<open>main\<close> and the test suite) sort a copy by distance first, which is
  \<open>lumoriaLightIntensities\<close>.
\<close>

definition calculateLightIntensities :: "lumoria_planet list \<Rightarrow> lumoria_result list" where
  "calculateLightIntensities sortedPlanets =
     map (lightIntensitiesEntry sortedPlanets) (enumerate 0 sortedPlanets)"

definition lumoriaLightIntensities :: "lumoria_planet list \<Rightarrow> lumoria_result list" where
  "lumoriaLightIntensities planets = calculateLightIntensities (sort_key distance planets)"

section \<open>Data model\<close>

text \<open>
  The enhanced system and its modules work on JavaScript objects \<^verbatim>\<open>{ name, distance, size }\<close>.
  The distance and the size of a body are positive real numbers in the data model of
  the specification, and a \<^typ>\<open>real\<close> here: the classifiers only compare them. Where
  the code computes with them before comparing, the computation goes through the
  arithmetic of the section on JavaScript numbers below. A string is a list of code
  units below 256. The field \<^verbatim>\<open>size\<close> is called \<open>size_km\<close> here, since \<open>size\<close>
  is a constant of HOL.
\<close>

record planet =
  name :: string
  distance :: real
  size_km :: real

text \<open>
  A \<^verbatim>\<open>TypeError\<close> is the only exception the modelled code can raise: by reading a
  property of \<^verbatim>\<open>undefined\<close> (an array element past the end), and by calling a
  method that a value does not have.
\<close>

datatype error = TypeError

text \<open>
  \<^verbatim>\<open>Array.prototype.map\<close> with a callback that may throw: the first exception
  aborts the whole call.
\<close>

fun array_map :: "('a \<Rightarrow> error + 'b) \<Rightarrow> 'a list \<Rightarrow> error + 'b list" where
  "array_map f [] = Inr []"
| "array_map f (x # xs) =
     (case f x of
        Inl e \<Rightarrow> Inl e
      | Inr y \<Rightarrow> (case array_map f xs of Inl e \<Rightarrow> Inl e | Inr ys \<Rightarrow> Inr (y # ys)))"

text \<open>
  \<^verbatim>\<open>[...planets].sort((a, b) => a.distance - b.distance)\<close>: the sort of ECMAScript
  is stable, and on finite numbers the sign of \<^verbatim>\<open>a.distance - b.distance\<close> is the
  comparison of the two distances, so the copy is the stable sort by the key
  \<^const>\<open>distance\<close>.
\<close>

definition sortByDistance :: "planet list \<Rightarrow> planet list" where
  "sortByDistance planets = sort_key distance planets"

section \<open>The primary classifier (enhanced light intensity system)\<close>

definition defaultLumoriaPlanets :: "planet list" where
  "defaultLumoriaPlanets =
     [\<lparr>name = ''Mercuria'', distance = 0.4, size_km = 4879\<rparr>,
      \<lparr>name = ''Earthia'', distance = 1, size_km = 12742\<rparr>,
      \<lparr>name = ''Venusia'', distance = 0.7, size_km = 12104\<rparr>,
      \<lparr>name = ''Marsia'', distance = 1.5, size_km = 6779\<rparr>]"

text \<open>
  \<^verbatim>\<open>getShadowCount(planets, currentIndex)\<close>. Index 0 returns 0 at once. Otherwise
  the filter callback reads \<^verbatim>\<open>planets[currentIndex].size\<close> once for every element of
  \<^verbatim>\<open>planets.slice(0, currentIndex)\<close>: when the index is past the end the read throws,
  unless the slice is empty and the callback never runs.
\<close>

definition getShadowCount :: "planet list \<Rightarrow> nat \<Rightarrow> error + nat" where
  "getShadowCount planets currentIndex =
     (if currentIndex = 0 then Inr 0
      else if take currentIndex planets = [] then Inr 0
      else if currentIndex < length planets then
        Inr (length (filter (\<lambda>planet. size_km planet > size_km (planets ! currentIndex))
                            (take currentIndex planets)))
      else Inl TypeError)"

text \<open>
  \<^verbatim>\<open>getLightIntensity(planetIndex, shadowCount, planets, currentIndex)\<close>; the last two
  parameters are unused, as in the source.
\<close>

definition getLightIntensity :: "nat \<Rightarrow> nat \<Rightarrow> planet list \<Rightarrow> nat \<Rightarrow> string" where
  "getLightIntensity planetIndex shadowCount planets currentIndex =
     (if planetIndex = 0 then ''Full''
      else if shadowCount = 1 then ''None''
      else if shadowCount > 1 then ''None (Multiple Shadows)''
      else ''Partial'')"

text \<open>
  The object returned for each planet by \<^verbatim>\<open>calculateLightIntensity\<close>: the planet's
  three fields and the analysis.
\<close>

record light_result = planet +
  light :: string
  shadowCount :: nat
  largerPlanetsInFront :: nat
  smallerPlanetsInFront :: nat

text \<open>The callback \<^verbatim>\<open>(planet, i) => { ... }\<close> of \<^verbatim>\<open>calculateLightIntensity\<close>.\<close>

definition lightIntensityEntry :: "planet list \<Rightarrow> nat \<times> planet \<Rightarrow> error + light_result" where
  "lightIntensityEntry sortedPlanets ip =
     (case ip of (i, planet) \<Rightarrow>
        (case getShadowCount sortedPlanets i of
           Inl e \<Rightarrow> Inl e
         | Inr sc \<Rightarrow>
             (let lightIntensity = getLightIntensity i sc sortedPlanets i;
                  planetsInFront = take i sortedPlanets;
                  larger = length (filter (\<lambda>p. size_km p > size_km planet) planetsInFront);
                  smaller = length (filter (\<lambda>p. size_km p \<le> size_km planet) planetsInFront)
              in Inr \<lparr>name = name planet,
                      distance = distance planet,
                      size_km = size_km planet,
                      light = lightIntensity,
                      shadowCount = sc,
                      largerPlanetsInFront = larger,
                      smallerPlanetsInFront = smaller\<rparr>)))"

definition calculateLightIntensity :: "planet list \<Rightarrow> error + light_result list" where
  "calculateLightIntensity planets =
     (let sortedPlanets = sortByDistance planets
      in array_map (lightIntensityEntry sortedPlanets) (enumerate 0 sortedPlanets))"

section \<open>JavaScript numbers\<close>

text \<open>
  JavaScript computes in IEEE 754 double precision: a decimal literal denotes the
  nearest double, and every product and difference is rounded to the nearest double.
  Two comparisons of the code depend on such rounded values
  (\<^verbatim>\<open>shadowCaster.size > shadowReceiver.size * 1.1\<close> and
  \<^verbatim>\<open>Math.abs(d - dist) < 0.01\<close>), so the functions that make them take the
  arithmetic as a parameter: \<open>js_literal\<close> is the value of a decimal literal,
  \<open>js_times\<close> and \<open>js_minus\<close> are the values of \<^verbatim>\<open>x * y\<close> and \<^verbatim>\<open>x - y\<close>.
  What is proved for every arithmetic holds for the doubles and for the exact reals.
  The shadow intensities 1.0, 0.6 and 0.3, their sum and the light
  \<^verbatim>\<open>1.0 - effectiveShadowIntensity\<close> are kept as the decimal numbers that the
  code writes: for sizes that are doubles the code only reaches the totals 0, 0.6 and
  sums that \<^verbatim>\<open>Math.min\<close> clamps to 1.0, and the doubles it computes from them
  (0, 0.6, 1 and 1 - 0.6, the double of the literal 0.4) are the ones that these
  decimals denote.
\<close>

record js_arithmetic =
  js_literal :: "real \<Rightarrow> real"
  js_times :: "real \<Rightarrow> real \<Rightarrow> real"
  js_minus :: "real \<Rightarrow> real \<Rightarrow> real"

definition exactArithmetic :: js_arithmetic where
  "exactArithmetic =
     \<lparr>js_literal = (\<lambda>x. x), js_times = (\<lambda>x y. x * y), js_minus = (\<lambda>x y. x - y)\<rparr>"

text \<open>
  Double precision, for results below \<open>2 ^ 1024\<close> in magnitude (no overflow to an
  infinity): \<open>binade fuel x\<close> is the exponent \<open>e\<close> with \<open>2 ^ e \<le> x < 2 ^ (e + 1)\<close> of a
  positive \<open>x\<close>, found in at most \<open>fuel\<close> steps; a double of that binade is a multiple of
  \<open>2 ^ (e - 52)\<close> (of \<open>2 ^ (- 1074)\<close> for the subnormal numbers), and rounding goes to
  the nearest multiple, to the even one in a tie.
\<close>

definition roundHalfEven :: "real \<Rightarrow> int" where
  "roundHalfEven y =
     (let f = \<lfloor>y\<rfloor>; r = y - of_int f
      in if r < 1 / 2 then f
         else if 1 / 2 < r then f + 1
         else if even f then f else f + 1)"

fun binade :: "nat \<Rightarrow> real \<Rightarrow> int" where
  "binade 0 x = 0"
| "binade (Suc fuel) x =
     (if 2 \<le> x then binade fuel (x / 2) + 1
      else if x < 1 then binade fuel (x * 2) - 1
      else 0)"

definition quantumOf :: "int \<Rightarrow> real" where
  "quantumOf e = (if 52 \<le> e then 2 ^ nat (e - 52) else 1 / 2 ^ nat (52 - e))"

definition roundDouble :: "real \<Rightarrow> real" where
  "roundDouble x =
     (if x = 0 then 0
      else (let e = max (binade 1100 \<bar>x\<bar>) (- 1022);
                q = quantumOf e
            in sgn x * of_int (roundHalfEven (\<bar>x\<bar> / q)) * q))"

definition doubleArithmetic :: js_arithmetic where
  "doubleArithmetic =
     \<lparr>js_literal = roundDouble,
      js_times = (\<lambda>x y. roundDouble (x * y)),
      js_minus = (\<lambda>x y. roundDouble (x - y))\<rparr>"

section \<open>The scientific variant (scientific shadow module)\<close>

text \<open>
  \<^verbatim>\<open>calculateAngularSize(planetSize, distance)\<close>. At distance 0 the JavaScript
  division gives an infinity or NaN, which is not a real: \<open>None\<close> stands for that
  non-finite result. Otherwise the value is the exact quotient; it is only reported,
  and no comparison of the code reads it.
\<close>

definition calculateAngularSize :: "real \<Rightarrow> real \<Rightarrow> real option" where
  "calculateAngularSize planetSize distanceAU =
     (let AU_TO_KM = 149597870.7;
          distanceKm = distanceAU * AU_TO_KM
      in if distanceKm = 0 then None
         else (let angularSizeRadians = planetSize / distanceKm;
                   angularSizeArcseconds = angularSizeRadians * 206265
               in Some angularSizeArcseconds))"

record shadow_info =
  hasShadow :: bool
  type :: string
  intensity :: real

text \<open>
  \<^verbatim>\<open>calculateShadowInteraction(shadowCaster, shadowReceiver)\<close>. The caster's size is
  compared with the products \<^verbatim>\<open>shadowReceiver.size * 1.1\<close> and
  \<^verbatim>\<open>shadowReceiver.size * 0.9\<close> as the arithmetic \<open>ar\<close> computes them. The source
  also computes the two angular sizes into local constants that it never reads; they
  have no effect and are left out.
\<close>

definition calculateShadowInteraction :: "js_arithmetic \<Rightarrow> planet \<Rightarrow> planet \<Rightarrow> shadow_info" where
  "calculateShadowInteraction ar shadowCaster shadowReceiver =
     (if distance shadowCaster \<ge> distance shadowReceiver then
        \<lparr>hasShadow = False, type = ''none'', intensity = 0\<rparr>
      else if size_km shadowCaster > js_times ar (size_km shadowReceiver) (js_literal ar 1.1) then
        \<lparr>hasShadow = True, type = ''complete'', intensity = 1.0\<rparr>
      else if size_km shadowCaster > js_times ar (size_km shadowReceiver) (js_literal ar 0.9) then
        \<lparr>hasShadow = True, type = ''partial'', intensity = 0.6\<rparr>
      else
        \<lparr>hasShadow = True, type = ''minimal'', intensity = 0.3\<rparr>)"

record shadow_detail =
  caster :: string
  type :: string
  intensity :: real

record shadow_analysis =
  shadowCount :: nat
  totalShadowIntensity :: real
  shadowDetails :: "shadow_detail list"
  lightIntensity :: real

text \<open>
  The body of \<^verbatim>\<open>largerPlanetsInFront.forEach(shadowCaster => { ... })\<close>: one step on
  the two variables it mutates, \<^verbatim>\<open>shadowDetails\<close> (by \<^verbatim>\<open>push\<close>) and
  \<^verbatim>\<open>totalShadowIntensity\<close> (by \<^verbatim>\<open>+=\<close>).
\<close>

definition analyzeShadowCaster ::
  "js_arithmetic \<Rightarrow> planet \<Rightarrow> shadow_detail list \<times> real \<Rightarrow> planet \<Rightarrow>
     shadow_detail list \<times> real" where
  "analyzeShadowCaster ar currentPlanet acc shadowCaster =
     (case acc of (details, totalIntensity) \<Rightarrow>
        (let shadowInfo = calculateShadowInteraction ar shadowCaster currentPlanet
         in if hasShadow shadowInfo then
              (details @ [\<lparr>caster = name shadowCaster,
                            type = shadow_info.type shadowInfo,
                            intensity = shadow_info.intensity shadowInfo\<rparr>],
               totalIntensity + shadow_info.intensity shadowInfo)
            else (details, totalIntensity)))"

text \<open>
  \<^verbatim>\<open>getScientificShadowAnalysis(planets, currentIndex)\<close>. As in \<^const>\<open>getShadowCount\<close>,
  an index past the end makes \<^verbatim>\<open>currentPlanet\<close> undefined, and the filter callback
  throws on \<^verbatim>\<open>currentPlanet.size\<close> unless the slice is empty; with an empty slice
  nothing is analysed and the totals of the empty loop are returned.
\<close>

definition getScientificShadowAnalysis ::
  "js_arithmetic \<Rightarrow> planet list \<Rightarrow> nat \<Rightarrow> error + shadow_analysis" where
  "getScientificShadowAnalysis ar planets currentIndex =
     (if currentIndex = 0 then
        Inr \<lparr>shadowCount = 0, totalShadowIntensity = 0, shadowDetails = [],
             lightIntensity = 1.0\<rparr>
      else if take currentIndex planets = [] then
        Inr \<lparr>shadowCount = 0, totalShadowIntensity = min 0 1.0, shadowDetails = [],
             lightIntensity = max 0 (1.0 - min 0 1.0)\<rparr>
      else if currentIndex < length planets then
        (let currentPlanet = planets ! currentIndex;
             largerInFront =
               filter (\<lambda>planet. size_km planet > size_km currentPlanet)
                      (take currentIndex planets);
             (details, totalIntensity) =
               foldl (analyzeShadowCaster ar currentPlanet) ([], 0) largerInFront;
             effectiveShadowIntensity = min totalIntensity 1.0;
             li = max 0 (1.0 - effectiveShadowIntensity)
         in Inr \<lparr>shadowCount = length largerInFront,
                 totalShadowIntensity = effectiveShadowIntensity,
                 shadowDetails = details,
                 lightIntensity = li\<rparr>)
      else Inl TypeError)"

definition getScientificLightIntensity :: "shadow_analysis \<Rightarrow> nat \<Rightarrow> string" where
  "getScientificLightIntensity shadowAnalysis planetIndex =
     (if planetIndex = 0 then ''Full''
      else (let sc = shadow_analysis.shadowCount shadowAnalysis
            in if sc = 1 then ''None''
               else if sc > 1 then ''None (Multiple Shadows)''
               else ''Partial''))"

record scientific_result = planet +
  light :: string
  scientificLightIntensity :: real
  shadowCount :: nat
  totalShadowIntensity :: real
  shadowDetails :: "shadow_detail list"
  angularSize :: "real option"

text \<open>The callback \<^verbatim>\<open>(planet, i) => { ... }\<close> of \<^verbatim>\<open>calculateScientificLightIntensity\<close>.\<close>

definition scientificEntry ::
  "js_arithmetic \<Rightarrow> planet list \<Rightarrow> nat \<times> planet \<Rightarrow> error + scientific_result" where
  "scientificEntry ar sortedPlanets ip =
     (case ip of (i, planet) \<Rightarrow>
        (case getScientificShadowAnalysis ar sortedPlanets i of
           Inl e \<Rightarrow> Inl e
         | Inr shadowAnalysis \<Rightarrow>
             (let li = getScientificLightIntensity shadowAnalysis i
              in Inr \<lparr>name = name planet,
                      distance = distance planet,
                      size_km = size_km planet,
                      light = li,
                      scientificLightIntensity = lightIntensity shadowAnalysis,
                      shadowCount = shadow_analysis.shadowCount shadowAnalysis,
                      totalShadowIntensity = shadow_analysis.totalShadowIntensity shadowAnalysis,
                      shadowDetails = shadow_analysis.shadowDetails shadowAnalysis,
                      angularSize = calculateAngularSize (size_km planet) (distance planet)\<rparr>)))"

definition calculateScientificLightIntensity ::
  "js_arithmetic \<Rightarrow> planet list \<Rightarrow> error + scientific_result list" where
  "calculateScientificLightIntensity ar planets =
     (let sortedPlanets = sortByDistance planets
      in array_map (scientificEntry ar sortedPlanets) (enumerate 0 sortedPlanets))"

section \<open>Rounding that respects a size\<close>

text \<open>
  An arithmetic respects a size \<open>r\<close> when the product of a positive \<open>r\<close> and 0.9, and
  the product of a non-positive \<open>r\<close> and 1.1, is at most \<open>r\<close>. The exact products do,
  for every \<open>r\<close>, and the products of doubles do for every positive double \<open>r\<close>
  (a number that rounding leaves unchanged): the product with the double of 0.9 lies
  below \<open>r\<close>, and rounding it cannot pass the double \<open>r\<close>.
\<close>

definition roundingRespects :: "js_arithmetic \<Rightarrow> real \<Rightarrow> bool" where
  "roundingRespects ar r =
     ((0 < r \<longrightarrow> js_times ar r (js_literal ar 0.9) \<le> r) \<and>
      (r \<le> 0 \<longrightarrow> js_times ar r (js_literal ar 1.1) \<le> r))"

section \<open>The rule of the specification\<close>

text \<open>
  The specification states the classification on the sorted sequence: for the body at
  position \<open>i\<close>, \<open>largerCloser\<close> is the bodies at positions \<open>0..i-1\<close> whose size is
  strictly greater than this body's size. The two definitions below follow these words,
  not the code.
\<close>

definition spec_largerCloser :: "planet list \<Rightarrow> nat \<Rightarrow> planet list" where
  "spec_largerCloser sortedBodies i =
     filter (\<lambda>b. size_km b > size_km (sortedBodies ! i)) (take i sortedBodies)"

definition spec_classification :: "planet list \<Rightarrow> nat \<Rightarrow> string" where
  "spec_classification sortedBodies i =
     (if i = 0 then ''Full''
      else if length (spec_largerCloser sortedBodies i) = 1 then ''None''
      else if length (spec_largerCloser sortedBodies i) > 1 then ''None (Multiple Shadows)''
      else ''Partial'')"

text \<open>
  The fractional light value in the words of the specification. \<open>spec_contribution\<close> is
  the three-tier contribution of one shadow caster: 1.0 when its size exceeds 110% of
  the receiver's size, 0.6 when it does not but exceeds 90% of it, and 0.3 when it is
  smaller, the two products being the ones that the arithmetic computes.
  \<open>spec_lightFraction\<close> sums it over the shadow casters of the glossary, the bodies
  closer to the star (positions \<open>0..i-1\<close>), clamps the sum to 1.0 and subtracts it
  from 1.
\<close>

definition spec_contribution :: "js_arithmetic \<Rightarrow> planet \<Rightarrow> planet \<Rightarrow> real" where
  "spec_contribution ar receiver c =
     (if size_km c > js_times ar (size_km receiver) (js_literal ar 1.1) then 1.0
      else if size_km c > js_times ar (size_km receiver) (js_literal ar 0.9) then 0.6
      else 0.3)"

definition spec_lightFraction :: "js_arithmetic \<Rightarrow> planet list \<Rightarrow> nat \<Rightarrow> real" where
  "spec_lightFraction ar sortedBodies i =
     1 - min (sum_list (map (spec_contribution ar (sortedBodies ! i)) (take i sortedBodies))) 1.0"

text \<open>
  The shadow casters that the scientific variant analyses for the body at sorted
  position \<open>i\<close> and records in \<^verbatim>\<open>shadowDetails\<close>: the bodies before it in sorted
  order that are strictly larger and strictly closer to the star (a larger body at an
  equal distance is counted in \<^verbatim>\<open>shadowCount\<close> but casts no shadow).
\<close>

definition shadowCastersOf :: "planet list \<Rightarrow> nat \<Rightarrow> planet list" where
  "shadowCastersOf sortedBodies i =
     filter (\<lambda>c. distance c < distance (sortedBodies ! i))
       (filter (\<lambda>c. size_km c > size_km (sortedBodies ! i)) (take i sortedBodies))"

section \<open>Validation (custom star system module)\<close>

subsection \<open>JavaScript values\<close>

text \<open>
  The validation receives objects whose properties may hold any value. The properties
  are modelled with the primitive values \<^verbatim>\<open>undefined\<close> (also a missing property),
  \<^verbatim>\<open>null\<close>, booleans, numbers and strings; a number is a real, NaN or an infinity.
\<close>

datatype jsnum = Number real | NaN | PosInfinity | NegInfinity

datatype jsval = JUndefined | JNull | JBool bool | JNum jsnum | JStr string

text \<open>The comparisons \<^verbatim>\<open>a < b\<close> and \<^verbatim>\<open>a <= b\<close> of two numbers: false when one is NaN.\<close>

fun js_lt :: "jsnum \<Rightarrow> jsnum \<Rightarrow> bool" where
  "js_lt NaN b = False"
| "js_lt a NaN = False"
| "js_lt (Number a) (Number b) = (a < b)"
| "js_lt a NegInfinity = False"
| "js_lt NegInfinity b = True"
| "js_lt PosInfinity b = False"
| "js_lt a PosInfinity = True"

definition js_le :: "jsnum \<Rightarrow> jsnum \<Rightarrow> bool" where
  "js_le a b = (a \<noteq> NaN \<and> b \<noteq> NaN \<and> (a = b \<or> js_lt a b))"

text \<open>
  \<^verbatim>\<open>a - b\<close> and \<^verbatim>\<open>Math.abs(a)\<close>; the difference of two finite numbers is the one
  that the arithmetic computes.
\<close>

fun js_sub :: "js_arithmetic \<Rightarrow> jsnum \<Rightarrow> jsnum \<Rightarrow> jsnum" where
  "js_sub ar NaN b = NaN"
| "js_sub ar a NaN = NaN"
| "js_sub ar (Number a) (Number b) = Number (js_minus ar a b)"
| "js_sub ar PosInfinity PosInfinity = NaN"
| "js_sub ar NegInfinity NegInfinity = NaN"
| "js_sub ar PosInfinity b = PosInfinity"
| "js_sub ar NegInfinity b = NegInfinity"
| "js_sub ar a PosInfinity = NegInfinity"
| "js_sub ar a NegInfinity = PosInfinity"

fun js_abs :: "jsnum \<Rightarrow> jsnum" where
  "js_abs (Number a) = Number \<bar>a\<bar>"
| "js_abs NaN = NaN"
| "js_abs PosInfinity = PosInfinity"
| "js_abs NegInfinity = PosInfinity"

text \<open>A number is truthy unless it is 0 or NaN.\<close>

fun js_truthy :: "jsnum \<Rightarrow> bool" where
  "js_truthy (Number a) = (a \<noteq> 0)"
| "js_truthy NaN = False"
| "js_truthy PosInfinity = True"
| "js_truthy NegInfinity = True"

subsection \<open>Strings\<close>

text \<open>
  \<^verbatim>\<open>trim\<close> removes white space at both ends, \<^verbatim>\<open>toLowerCase\<close> maps the
  upper-case letters among the code units below 256, \<^verbatim>\<open>join\<close> concatenates with a
  separator, and a template literal renders a count in decimal.
\<close>

definition isWhiteSpace :: "char \<Rightarrow> bool" where
  "isWhiteSpace c = (of_char c \<in> set [9, 10, 11, 12, 13, 32, 160 :: nat])"

definition trim :: "string \<Rightarrow> string" where
  "trim s = rev (dropWhile isWhiteSpace (rev (dropWhile isWhiteSpace s)))"

definition toLowerCaseChar :: "char \<Rightarrow> char" where
  "toLowerCaseChar c =
     (let n = (of_char c :: nat)
      in if (65 \<le> n \<and> n \<le> 90) \<or> (192 \<le> n \<and> n \<le> 222 \<and> n \<noteq> 215)
         then char_of (n + 32) else c)"

definition toLowerCase :: "string \<Rightarrow> string" where
  "toLowerCase s = map toLowerCaseChar s"

fun join :: "string \<Rightarrow> string list \<Rightarrow> string" where
  "join sep [] = []"
| "join sep [x] = x"
| "join sep (x # y # ys) = x @ sep @ join sep (y # ys)"

function numberToString :: "nat \<Rightarrow> string" where
  "numberToString n =
     (if n < 10 then [char_of (48 + n)]
      else numberToString (n div 10) @ [char_of (48 + n mod 10)])"
  by pat_completeness auto
termination
  by (relation "measure id") auto

declare numberToString.simps [simp del]

text \<open>\<^verbatim>\<open>[...new Set(xs)]\<close>: the distinct elements in the order of their first occurrence.\<close>

definition setToArray :: "'a list \<Rightarrow> 'a list" where
  "setToArray xs = rev (remdups (rev xs))"

text \<open>\<^verbatim>\<open>xs.indexOf(x)\<close>: the first index of \<open>x\<close>, or \<open>-1\<close>.\<close>

fun indexOf :: "'a list \<Rightarrow> 'a \<Rightarrow> int" where
  "indexOf [] x = -1"
| "indexOf (y # ys) x =
     (if y = x then 0 else (let k = indexOf ys x in if k < 0 then -1 else k + 1))"

text \<open>
  \<^verbatim>\<open>v?.trim()\<close>: \<^verbatim>\<open>undefined\<close> for \<^verbatim>\<open>undefined\<close> and \<^verbatim>\<open>null\<close>, the trimmed string
  for a string; a number or a boolean has no \<^verbatim>\<open>trim\<close> method and the call throws.
\<close>

definition optionalTrim :: "jsval \<Rightarrow> error + jsval" where
  "optionalTrim v =
     (case v of
        JUndefined \<Rightarrow> Inr JUndefined
      | JNull \<Rightarrow> Inr JUndefined
      | JStr s \<Rightarrow> Inr (JStr (trim s))
      | JBool b \<Rightarrow> Inl TypeError
      | JNum n \<Rightarrow> Inl TypeError)"

text \<open>
  \<^verbatim>\<open>xs.forEach(f)\<close> with a callback that updates the state \<open>s\<close> and may throw: the
  first exception aborts the loop.
\<close>

fun array_forEach :: "('s \<Rightarrow> 'a \<Rightarrow> error + 's) \<Rightarrow> 's \<Rightarrow> 'a list \<Rightarrow> error + 's" where
  "array_forEach f s [] = Inr s"
| "array_forEach f s (x # xs) =
     (case f s x of Inl e \<Rightarrow> Inl e | Inr s' \<Rightarrow> array_forEach f s' xs)"

subsection \<open>Planets\<close>

text \<open>
  The object given to \<^verbatim>\<open>validatePlanet\<close>, and the planet it returns: the name
  trimmed (\<^verbatim>\<open>undefined\<close> when there is none) and the two numbers that
  \<^verbatim>\<open>parseFloat\<close> returns.
\<close>

record planet_object =
  name :: jsval
  distance :: jsval
  size_km :: jsval

record validated_planet =
  name :: jsval
  distance :: jsnum
  size_km :: jsnum

text \<open>
  What the host provides and the sources do not contain: the conversion of a string to
  a number that \<^verbatim>\<open>></\<close> applies to a string operand, \<^verbatim>\<open>parseFloat\<close> on a string,
  and the order in which \<^verbatim>\<open>Array.prototype.sort\<close> leaves an array on which the
  comparator \<^verbatim>\<open>(a, b) => a.distance - b.distance\<close> is not consistent (a distance is
  NaN), which the language leaves to the implementation.
\<close>

record js_host =
  js_stringToNumber :: "string \<Rightarrow> jsnum"
  js_parseFloat :: "string \<Rightarrow> jsnum"
  js_sortInconsistent :: "validated_planet list \<Rightarrow> validated_planet list"

text \<open>The conversion to a number that \<^verbatim>\<open>v > 50\<close> applies to its left operand.\<close>

definition toNumber :: "js_host \<Rightarrow> jsval \<Rightarrow> jsnum" where
  "toNumber host v =
     (case v of
        JUndefined \<Rightarrow> NaN
      | JNull \<Rightarrow> Number 0
      | JBool b \<Rightarrow> Number (if b then 1 else 0)
      | JNum n \<Rightarrow> n
      | JStr s \<Rightarrow> js_stringToNumber host s)"

text \<open>
  \<^verbatim>\<open>parseFloat(v)\<close> converts its argument to a string and reads a number from it: a
  number is read back as it is, and \<^verbatim>\<open>undefined\<close>, \<^verbatim>\<open>null\<close>, \<^verbatim>\<open>true\<close> and
  \<^verbatim>\<open>false\<close> give NaN.
\<close>

definition parseFloatOf :: "js_host \<Rightarrow> jsval \<Rightarrow> jsnum" where
  "parseFloatOf host v =
     (case v of
        JNum n \<Rightarrow> n
      | JStr s \<Rightarrow> js_parseFloat host s
      | JUndefined \<Rightarrow> NaN
      | JNull \<Rightarrow> NaN
      | JBool b \<Rightarrow> NaN)"

record planet_validation =
  isValid :: bool
  errors :: "string list"
  planet :: validated_planet

text \<open>
  \<^verbatim>\<open>validatePlanet(planet)\<close>. Each \<^verbatim>\<open>errors.push\<close> is one step of
  \<open>errors0 \<dots> errors5\<close>. The name test
  \<^verbatim>\<open>!planet.name || typeof planet.name !== 'string' || planet.name.trim().length === 0\<close>
  holds for every value that is not a string, and the tests on the distance and the size
  hold for every value that is not a number. The returned object is built last, and
  \<^verbatim>\<open>planet.name?.trim()\<close> throws there for a name that is a number or a boolean,
  after the errors have been collected.
\<close>

definition validatePlanet :: "js_host \<Rightarrow> planet_object \<Rightarrow> error + planet_validation" where
  "validatePlanet host p =
     (let errors0 = [];
          errors1 =
            (if (case planet_object.name p of
                   JStr s \<Rightarrow> s = [] \<or> length (trim s) = 0
                 | JUndefined \<Rightarrow> True | JNull \<Rightarrow> True | JBool b \<Rightarrow> True | JNum n \<Rightarrow> True)
             then errors0 @ [''Planet name is required and must be a non-empty string'']
             else errors0);
          errors2 =
            (if (case planet_object.distance p of
                   JNum n \<Rightarrow> js_le n (Number 0)
                 | JUndefined \<Rightarrow> True | JNull \<Rightarrow> True | JBool b \<Rightarrow> True | JStr s \<Rightarrow> True)
             then errors1 @ [''Distance must be a positive number (AU)'']
             else errors1);
          errors3 =
            (if (case planet_object.size_km p of
                   JNum n \<Rightarrow> js_le n (Number 0)
                 | JUndefined \<Rightarrow> True | JNull \<Rightarrow> True | JBool b \<Rightarrow> True | JStr s \<Rightarrow> True)
             then errors2 @ [''Size must be a positive number (km diameter)'']
             else errors2);
          errors4 =
            (if js_lt (Number 50) (toNumber host (planet_object.distance p))
             then errors3 @ [''Distance seems unrealistically large (>50 AU) - please verify'']
             else errors3);
          errors5 =
            (if js_lt (Number 150000) (toNumber host (planet_object.size_km p))
             then errors4 @ [''Size seems unrealistically large (>150,000 km) - please verify'']
             else errors4)
      in case optionalTrim (planet_object.name p) of
           Inl e \<Rightarrow> Inl e
         | Inr trimmed \<Rightarrow>
             Inr \<lparr>isValid = (length errors5 = 0),
                  errors = errors5,
                  planet = \<lparr>name = trimmed,
                             distance = parseFloatOf host (planet_object.distance p),
                             size_km = parseFloatOf host (planet_object.size_km p)\<rparr>\<rparr>)"

subsection \<open>Star systems\<close>

text \<open>
  The object given to \<^verbatim>\<open>validateStarSystem\<close>; \<open>planets\<close> is \<open>None\<close> when the
  property is not an array.
\<close>

record star_system =
  name :: jsval
  description :: jsval
  planets :: "planet_object list option"

record validated_system =
  name :: jsval
  description :: string
  planets :: "validated_planet list"

record system_validation =
  isValid :: bool
  errors :: "string list"
  validatedSystem :: validated_system

text \<open>
  The line that \<^verbatim>\<open>validateStarSystem\<close> pushes for an invalid planet at position
  \<open>index\<close>: all the errors of \<^verbatim>\<open>validatePlanet\<close>, joined.
\<close>

definition planetErrorLine :: "nat \<Rightarrow> planet_validation \<Rightarrow> string" where
  "planetErrorLine index validation =
     ''Planet '' @ numberToString (index + 1) @ '': '' @
     join '', '' (planet_validation.errors validation)"

text \<open>
  The body of \<^verbatim>\<open>system.planets.forEach((planet, index) => { ... })\<close>: one step on
  \<^verbatim>\<open>errors\<close> and \<^verbatim>\<open>validatedPlanets\<close>; an exception of \<^verbatim>\<open>validatePlanet\<close>
  leaves the loop and the function.
\<close>

definition validatePlanetStep ::
  "js_host \<Rightarrow> string list \<times> validated_planet list \<Rightarrow> nat \<times> planet_object \<Rightarrow>
     error + string list \<times> validated_planet list" where
  "validatePlanetStep host acc ip =
     (case acc of (errs, validatedPlanets) \<Rightarrow>
        (case ip of (index, p) \<Rightarrow>
           (case validatePlanet host p of
              Inl e \<Rightarrow> Inl e
            | Inr validation \<Rightarrow>
                if \<not> planet_validation.isValid validation then
                  Inr (errs @ [planetErrorLine index validation], validatedPlanets)
                else Inr (errs, validatedPlanets @ [planet validation]))))"

text \<open>\<^verbatim>\<open>p.name.toLowerCase()\<close>; it throws when the name is not a string.\<close>

definition nameToLowerCase :: "validated_planet \<Rightarrow> error + string" where
  "nameToLowerCase p =
     (case validated_planet.name p of JStr s \<Rightarrow> Inr (toLowerCase s) | _ \<Rightarrow> Inl TypeError)"

definition duplicateNamesOf :: "string list \<Rightarrow> string list" where
  "duplicateNamesOf planetNames =
     map snd
       (filter (\<lambda>(index, n). indexOf planetNames n \<noteq> int index) (enumerate 0 planetNames))"

text \<open>
  \<^verbatim>\<open>distances.find((d, i) => i !== index && Math.abs(d - dist) < 0.01)\<close>: the first
  distance of another planet for which the computed difference is below the literal
  0.01, or \<^verbatim>\<open>undefined\<close> (\<open>None\<close>).
\<close>

definition findCloseDistance :: "js_arithmetic \<Rightarrow> jsnum list \<Rightarrow> jsnum \<Rightarrow> nat \<Rightarrow> jsnum option" where
  "findCloseDistance ar distances d index =
     map_option snd
       (find (\<lambda>(i, d'). i \<noteq> index \<and>
                js_lt (js_abs (js_sub ar d' d)) (Number (js_literal ar 0.01)))
          (enumerate 0 distances))"

text \<open>The filter keeps a distance when the value found is truthy.\<close>

definition duplicateDistancesOf :: "js_arithmetic \<Rightarrow> jsnum list \<Rightarrow> jsnum list" where
  "duplicateDistancesOf ar distances =
     map snd
       (filter (\<lambda>(index, d). case findCloseDistance ar distances d index of
                                 None \<Rightarrow> False
                               | Some found \<Rightarrow> js_truthy found)
               (enumerate 0 distances))"

text \<open>
  \<^verbatim>\<open>validatedPlanets.sort((a, b) => a.distance - b.distance)\<close>: the stable sort by
  distance when every distance is a finite number, and what the host does otherwise.
\<close>

fun isFiniteNumber :: "jsnum \<Rightarrow> bool" where
  "isFiniteNumber (Number r) = True"
| "isFiniteNumber NaN = False"
| "isFiniteNumber PosInfinity = False"
| "isFiniteNumber NegInfinity = False"

fun finiteValue :: "jsnum \<Rightarrow> real" where
  "finiteValue (Number r) = r"
| "finiteValue NaN = 0"
| "finiteValue PosInfinity = 0"
| "finiteValue NegInfinity = 0"

definition sortValidated :: "js_host \<Rightarrow> validated_planet list \<Rightarrow> validated_planet list" where
  "sortValidated host validatedPlanets =
     (if list_all (\<lambda>p. isFiniteNumber (validated_planet.distance p)) validatedPlanets
      then sort_key (\<lambda>p. finiteValue (validated_planet.distance p)) validatedPlanets
      else js_sortInconsistent host validatedPlanets)"

text \<open>
  The string that a template literal makes of the system name, where it is reached: a
  number or a boolean name has thrown before.
\<close>

definition templateString :: "jsval \<Rightarrow> string" where
  "templateString v = (case v of JStr s \<Rightarrow> s | JNull \<Rightarrow> ''null'' | _ \<Rightarrow> ''undefined'')"

text \<open>
  \<^verbatim>\<open>validateStarSystem(system)\<close>. The returned object is built last:
  \<^verbatim>\<open>system.name?.trim()\<close> and \<^verbatim>\<open>system.description?.trim()\<close> throw there for a
  number or a boolean.
\<close>

definition validateStarSystem ::
  "js_arithmetic \<Rightarrow> js_host \<Rightarrow> star_system \<Rightarrow> error + system_validation" where
  "validateStarSystem ar host system =
     (let errors0 = [];
          errors1 =
            (if (case star_system.name system of
                   JStr s \<Rightarrow> s = [] \<or> length (trim s) = 0
                 | JUndefined \<Rightarrow> True | JNull \<Rightarrow> True | JBool b \<Rightarrow> True | JNum n \<Rightarrow> True)
             then errors0 @ [''Star system name is required'']
             else errors0);
          checked =
            (case star_system.planets system of
               None \<Rightarrow> Inr (errors1 @ [''At least one planet is required''], [])
             | Some ps \<Rightarrow>
                 if length ps = 0 then Inr (errors1 @ [''At least one planet is required''], [])
                 else
                   (case array_forEach (validatePlanetStep host) (errors1, []) (enumerate 0 ps) of
                      Inl e \<Rightarrow> Inl e
                    | Inr (errors2, validated) \<Rightarrow>
                        (case array_map nameToLowerCase validated of
                           Inl e \<Rightarrow> Inl e
                         | Inr planetNames \<Rightarrow>
                             (let duplicates = duplicateNamesOf planetNames;
                                  errors3 =
                                    (if length duplicates > 0
                                     then errors2 @ [''Duplicate planet names found: '' @
                                                     join '', '' (setToArray duplicates)]
                                     else errors2);
                                  distances = map validated_planet.distance validated;
                                  duplicateDistances = duplicateDistancesOf ar distances
                              in Inr (if length duplicateDistances > 0
                                      then errors3 @
                                        [''Multiple planets cannot occupy the same orbital distance'']
                                      else errors3,
                                      validated)))))
      in case checked of
           Inl e \<Rightarrow> Inl e
         | Inr (errors4, validatedPlanets) \<Rightarrow>
             (case optionalTrim (star_system.name system) of
                Inl e \<Rightarrow> Inl e
              | Inr trimmedName \<Rightarrow>
                  (case optionalTrim (star_system.description system) of
                     Inl e \<Rightarrow> Inl e
                   | Inr trimmedDescription \<Rightarrow>
                       Inr \<lparr>isValid = (length errors4 = 0),
                            errors = errors4,
                            validatedSystem =
                              \<lparr>name = trimmedName,
                               description =
                                 (case trimmedDescription of
                                    JStr descr \<Rightarrow>
                                      if descr = []
                                      then ''Custom star system: '' @
                                           templateString (star_system.name system)
                                      else descr
                                  | _ \<Rightarrow> ''Custom star system: '' @
                                         templateString (star_system.name system)),
                               planets = sortValidated host validatedPlanets\<rparr>\<rparr>)))"

text \<open>
  A host for objects whose distance and size are numbers without NaN: none of its
  functions is called on them.
\<close>

definition numericHost :: js_host where
  "numericHost =
     \<lparr>js_stringToNumber = (\<lambda>s. NaN), js_parseFloat = (\<lambda>s. NaN),
      js_sortInconsistent = (\<lambda>ps. ps)\<rparr>"

subsection \<open>Example systems\<close>








section \<open>Auxiliary facts\<close>

lemma array_map_Inr:
  "(\<And>x. x \<in> set xs \<Longrightarrow> f x = Inr (g x)) \<Longrightarrow> array_map f xs = Inr (map g xs)"
  by (induction xs) simp_all

lemma array_map_enumerate:
  assumes "\<And>i. i < length xs \<Longrightarrow> f (i, xs ! i) = Inr (g i)"
  shows "array_map f (enumerate 0 xs) = Inr (map g [0..<length xs])"
proof -
  have "array_map f (enumerate 0 xs) = Inr (map (\<lambda>ip. g (fst ip)) (enumerate 0 xs))"
    by (rule array_map_Inr) (auto simp: in_set_enumerate_eq assms)
  also have "map (\<lambda>ip. g (fst ip)) (enumerate 0 xs) = map g [0..<length xs]"
    by (rule nth_equalityI) (simp_all add: nth_enumerate_eq)
  finally show ?thesis .
qed

lemma length_sortByDistance: "length (sortByDistance bodies) = length bodies"
  by (simp add: sortByDistance_def)

lemma mset_sortByDistance: "mset (sortByDistance bodies) = mset bodies"
  by (simp add: sortByDistance_def)

lemma sorted_sortByDistance: "sorted (map planet.distance (sortByDistance bodies))"
  by (simp add: sortByDistance_def)

lemma getShadowCount_in_range:
  "i < length ps \<Longrightarrow> getShadowCount ps i = Inr (length (spec_largerCloser ps i))"
  by (auto simp: getShadowCount_def spec_largerCloser_def)

lemma getLightIntensity_spec:
  "getLightIntensity i (length (spec_largerCloser ps i)) ps i = spec_classification ps i"
  by (simp add: getLightIntensity_def spec_classification_def)

lemma lightIntensityEntry_in_range:
  assumes "i < length ps"
  shows "\<exists>r. lightIntensityEntry ps (i, ps ! i) = Inr r \<and> planet.truncate r = ps ! i \<and>
             light_result.light r = spec_classification ps i"
  using assms
  by (simp add: lightIntensityEntry_def getShadowCount_in_range getLightIntensity_spec
        Let_def planet.truncate_def)

lemma calculateLightIntensity_results:
  "\<exists>rs. calculateLightIntensity bodies = Inr rs \<and> length rs = length bodies \<and>
     (\<forall>i < length bodies. planet.truncate (rs ! i) = sortByDistance bodies ! i \<and>
        light_result.light (rs ! i) = spec_classification (sortByDistance bodies) i)"
proof -
  let ?ps = "sortByDistance bodies"
  have "\<forall>i. \<exists>r. i < length ?ps \<longrightarrow>
          lightIntensityEntry ?ps (i, ?ps ! i) = Inr r \<and> planet.truncate r = ?ps ! i \<and>
          light_result.light r = spec_classification ?ps i"
    using lightIntensityEntry_in_range by blast
  then obtain g where g: "\<And>i. i < length ?ps \<Longrightarrow>
          lightIntensityEntry ?ps (i, ?ps ! i) = Inr (g i) \<and> planet.truncate (g i) = ?ps ! i \<and>
          light_result.light (g i) = spec_classification ?ps i"
    by metis
  have "calculateLightIntensity bodies = Inr (map g [0..<length ?ps])"
    unfolding calculateLightIntensity_def Let_def
    by (rule array_map_enumerate) (simp add: g)
  then show ?thesis
    using g by (auto simp: length_sortByDistance)
qed

lemma getScientificShadowAnalysis_count:
  assumes "i < length ps"
  shows "\<exists>a. getScientificShadowAnalysis ar ps i = Inr a \<and>
             shadow_analysis.shadowCount a = length (spec_largerCloser ps i)"
  using assms
  by (auto simp: getScientificShadowAnalysis_def spec_largerCloser_def Let_def split: prod.splits)

lemma getScientificLightIntensity_spec:
  "shadow_analysis.shadowCount a = length (spec_largerCloser ps i) \<Longrightarrow>
   getScientificLightIntensity a i = spec_classification ps i"
  by (simp add: getScientificLightIntensity_def spec_classification_def Let_def)

lemma scientificEntry_in_range:
  assumes "i < length ps"
  shows "\<exists>r a. scientificEntry ar ps (i, ps ! i) = Inr r \<and> planet.truncate r = ps ! i \<and>
             scientific_result.light r = spec_classification ps i \<and>
             getScientificShadowAnalysis ar ps i = Inr a \<and>
             scientificLightIntensity r = lightIntensity a \<and>
             scientific_result.shadowDetails r = shadow_analysis.shadowDetails a"
proof -
  from getScientificShadowAnalysis_count [OF assms] obtain a where
    a: "getScientificShadowAnalysis ar ps i = Inr a"
       "shadow_analysis.shadowCount a = length (spec_largerCloser ps i)"
    by blast
  show ?thesis
    by (simp add: scientificEntry_def a getScientificLightIntensity_spec [OF a(2)]
          Let_def planet.truncate_def)
qed

lemma calculateScientificLightIntensity_results:
  "\<exists>ss. calculateScientificLightIntensity ar bodies = Inr ss \<and> length ss = length bodies \<and>
     (\<forall>i < length bodies. planet.truncate (ss ! i) = sortByDistance bodies ! i \<and>
        scientific_result.light (ss ! i) = spec_classification (sortByDistance bodies) i \<and>
        (\<exists>a. getScientificShadowAnalysis ar (sortByDistance bodies) i = Inr a \<and>
             scientificLightIntensity (ss ! i) = lightIntensity a \<and>
             scientific_result.shadowDetails (ss ! i) = shadow_analysis.shadowDetails a))"
proof -
  let ?ps = "sortByDistance bodies"
  let ?P = "\<lambda>i r. scientificEntry ar ?ps (i, ?ps ! i) = Inr r \<and> planet.truncate r = ?ps ! i \<and>
             scientific_result.light r = spec_classification ?ps i \<and>
             (\<exists>a. getScientificShadowAnalysis ar ?ps i = Inr a \<and>
             scientificLightIntensity r = lightIntensity a \<and>
             scientific_result.shadowDetails r = shadow_analysis.shadowDetails a)"
  have "\<forall>i. \<exists>r. i < length ?ps \<longrightarrow> ?P i r"
    using scientificEntry_in_range by blast
  then obtain g where g: "\<And>i. i < length ?ps \<Longrightarrow> ?P i (g i)"
    by metis
  have "calculateScientificLightIntensity ar bodies = Inr (map g [0..<length ?ps])"
    unfolding calculateScientificLightIntensity_def Let_def
    by (rule array_map_enumerate) (simp add: g)
  then show ?thesis
    using g by (auto simp: length_sortByDistance)
qed

lemma sortByDistance_stable:
  "filter (\<lambda>b. planet.distance b = d) (sortByDistance bodies) =
   filter (\<lambda>b. planet.distance b = d) bodies"
  by (simp add: sortByDistance_def sort_key_stable)

lemma sortByDistance_default:
  "sortByDistance defaultLumoriaPlanets =
     [\<lparr>planet.name = ''Mercuria'', distance = 0.4, size_km = 4879\<rparr>,
      \<lparr>planet.name = ''Venusia'', distance = 0.7, size_km = 12104\<rparr>,
      \<lparr>planet.name = ''Earthia'', distance = 1, size_km = 12742\<rparr>,
      \<lparr>planet.name = ''Marsia'', distance = 1.5, size_km = 6779\<rparr>]"
  by (simp add: sortByDistance_def defaultLumoriaPlanets_def)

lemma sort_two:
  "planet.distance a < planet.distance b \<Longrightarrow>
   sortByDistance [a, b] = [a, b] \<and> sortByDistance [b, a] = [a, b]"
  by (simp add: sortByDistance_def)

lemma hd_sorted_le:
  assumes "sorted (map f xs)" and "x \<in> set xs"
  shows "f (hd xs) \<le> f x"
  using assms by (cases xs) auto

lemma lumoriaLightIntensities_hd:
  assumes "lbodies \<noteq> []"
  shows "lumoria_planet.truncate (hd (lumoriaLightIntensities lbodies)) =
           hd (sort_key lumoria_planet.distance lbodies) \<and>
         shadow (hd (lumoriaLightIntensities lbodies)) = ''None''"
proof -
  have "sort_key lumoria_planet.distance lbodies \<noteq> []"
    using assms by (metis length_sort length_0_conv)
  then obtain b bs where s: "sort_key lumoria_planet.distance lbodies = b # bs"
    by (cases "sort_key lumoria_planet.distance lbodies") auto
  show ?thesis
    by (simp add: lumoriaLightIntensities_def calculateLightIntensities_def s
        lightIntensitiesEntry_def ShadowType_NONE_def lumoria_planet.truncate_def)
qed

lemma binade_numeral:
  "binade (numeral k) x =
     (if 2 \<le> x then binade (pred_numeral k) (x / 2) + 1
      else if x < 1 then binade (pred_numeral k) (x * 2) - 1
      else 0)"
  by (simp add: numeral_eq_Suc)

lemmas roundDouble_eval =
  roundDouble_def binade_numeral quantumOf_def roundHalfEven_def Let_def

lemma roundingRespects_exact: "roundingRespects exactArithmetic r"
  by (simp add: roundingRespects_def exactArithmetic_def mult_le_cancel_left1 mult_le_cancel_left2)

lemma roundHalfEven_le:
  assumes "y \<le> of_int N"
  shows "roundHalfEven y \<le> N"
proof (cases "y = of_int N")
  case True
  then show ?thesis
    by (simp add: roundHalfEven_def)
next
  case False
  with assms have "y < of_int N"
    by simp
  then have "\<lfloor>y\<rfloor> < N"
    by (simp add: floor_less_iff)
  then have "\<lfloor>y\<rfloor> + 1 \<le> N"
    by simp
  then show ?thesis
    by (auto simp: roundHalfEven_def Let_def)
qed

lemma binade_lt_2: "x < 2 \<Longrightarrow> binade n x \<le> 0"
proof (induction n arbitrary: x)
  case 0
  then show ?case by simp
next
  case (Suc n)
  show ?case
  proof (cases "x < 1")
    case True
    then have "binade n (x * 2) \<le> 0"
      using Suc.IH [of "x * 2"] by simp
    with True Suc.prems show ?thesis
      by simp
  next
    case False
    with Suc.prems show ?thesis
      by simp
  qed
qed

lemma binade_ge_1: "1 \<le> x \<Longrightarrow> 0 \<le> binade n x"
proof (induction n arbitrary: x)
  case 0
  then show ?case by simp
next
  case (Suc n)
  show ?case
  proof (cases "2 \<le> x")
    case True
    then have "0 \<le> binade n (x / 2)"
      using Suc.IH [of "x / 2"] by simp
    with True show ?thesis
      by simp
  next
    case False
    with Suc.prems show ?thesis
      by simp
  qed
qed

lemma binade_mono: "x \<le> y \<Longrightarrow> binade n x \<le> binade n y"
proof (induction n arbitrary: x y)
  case 0
  then show ?case by simp
next
  case (Suc n)
  consider "2 \<le> x" | "x < 1" "2 \<le> y" | "x < 1" "y < 1" | "x < 1" "1 \<le> y" "y < 2"
    | "1 \<le> x" "x < 2" "2 \<le> y" | "1 \<le> x" "x < 2" "y < 2"
    by linarith
  then show ?case
  proof cases
    case 1
    with Suc.prems have "2 \<le> y" by simp
    moreover have "binade n (x / 2) \<le> binade n (y / 2)"
      using Suc.IH [of "x / 2" "y / 2"] Suc.prems by simp
    ultimately show ?thesis
      using 1 by simp
  next
    case 2
    have "binade n (x * 2) \<le> 0"
      using 2(1) by (intro binade_lt_2) simp
    moreover have "0 \<le> binade n (y / 2)"
      using 2(2) by (intro binade_ge_1) simp
    ultimately show ?thesis
      using 2 by simp
  next
    case 3
    have "binade n (x * 2) \<le> binade n (y * 2)"
      using Suc.IH [of "x * 2" "y * 2"] Suc.prems by simp
    then show ?thesis
      using 3 by simp
  next
    case 4
    have "binade n (x * 2) \<le> 0"
      using 4(1) by (intro binade_lt_2) simp
    then show ?thesis
      using 4 by simp
  next
    case 5
    have "0 \<le> binade n (y / 2)"
      using 5(3) by (intro binade_ge_1) simp
    then show ?thesis
      using 5 by simp
  next
    case 6
    with Suc.prems show ?thesis
      by simp
  qed
qed

lemma quantumOf_power_int: "quantumOf e = 2 powi (e - 52)"
proof (cases "52 \<le> e")
  case True
  then show ?thesis
    by (simp add: quantumOf_def power_int_def)
next
  case False
  then have "(2::real) powi (e - 52) = inverse 2 ^ nat (52 - e)"
    by (simp add: power_int_def)
  also have "\<dots> = 1 / 2 ^ nat (52 - e)"
    by (simp add: power_one_over)
  finally show ?thesis
    using False by (simp add: quantumOf_def)
qed

lemma quantumOf_pos: "0 < quantumOf e"
  by (simp add: quantumOf_power_int)

lemma quantumOf_mono:
  assumes "e' \<le> e"
  shows "quantumOf e = 2 ^ nat (e - e') * quantumOf e'"
proof -
  have "quantumOf e = 2 powi ((e - e') + (e' - 52))"
    by (simp add: quantumOf_power_int)
  also have "\<dots> = 2 powi (e - e') * (2::real) powi (e' - 52)"
    by (rule power_int_add) simp
  also have "(2::real) powi (e - e') = 2 ^ nat (e - e')"
    using assms by (simp add: power_int_def)
  finally show ?thesis
    by (simp add: quantumOf_power_int)
qed

lemma roundDouble_shrink:
  assumes "0 < r" and "roundDouble r = r" and "0 < c" and "c \<le> 1"
  shows "roundDouble (r * c) \<le> r"
proof -
  define x where "x = r * c"
  define e where "e = max (binade 1100 \<bar>r\<bar>) (- 1022)"
  define e' where "e' = max (binade 1100 \<bar>x\<bar>) (- 1022)"
  define K where "K = roundHalfEven (\<bar>r\<bar> / quantumOf e)"
  have x: "0 < x" "x \<le> r"
    using assms by (simp_all add: x_def mult_le_cancel_left1)
  have ee: "e' \<le> e"
    unfolding e_def e'_def using binade_mono [of "\<bar>x\<bar>" "\<bar>r\<bar>" 1100] x assms(1) by simp
  have r: "r = of_int K * quantumOf e"
    using assms(1,2) by (simp add: roundDouble_def Let_def e_def K_def)
  have rx: "roundDouble x = of_int (roundHalfEven (x / quantumOf e')) * quantumOf e'"
    using x(1) by (simp add: roundDouble_def Let_def e'_def)
  define N where "N = K * 2 ^ nat (e - e')"
  have rN: "r = of_int N * quantumOf e'"
    using r quantumOf_mono [OF ee] by (simp add: N_def)
  have "x / quantumOf e' \<le> r / quantumOf e'"
    using x(2) quantumOf_pos [of e'] by (simp add: divide_right_mono)
  also have "r / quantumOf e' = of_int N"
    using rN quantumOf_pos [of e'] by simp
  finally have "roundHalfEven (x / quantumOf e') \<le> N"
    by (rule roundHalfEven_le)
  then have "of_int (roundHalfEven (x / quantumOf e')) * quantumOf e' \<le> of_int N * quantumOf e'"
    using quantumOf_pos [of e'] by (simp add: mult_right_mono)
  then show ?thesis
    using rx rN by (simp add: x_def)
qed

lemma literal_0_9: "js_literal doubleArithmetic 0.9 = 8106479329266893 / 9007199254740992"
  by (simp add: doubleArithmetic_def roundDouble_eval)

lemma roundingRespects_double:
  assumes "0 < r" and "roundDouble r = r"
  shows "roundingRespects doubleArithmetic r"
proof -
  have "roundDouble (r * (8106479329266893 / 9007199254740992)) \<le> r"
    using assms by (rule roundDouble_shrink) simp_all
  then have "js_times doubleArithmetic r (js_literal doubleArithmetic 0.9) \<le> r"
    unfolding literal_0_9 by (simp add: doubleArithmetic_def)
  then show ?thesis
    using assms(1) by (simp add: roundingRespects_def)
qed

lemma interaction_hasShadow:
  "hasShadow (calculateShadowInteraction ar c cur) = (planet.distance c < planet.distance cur)"
  by (auto simp: calculateShadowInteraction_def)

lemma interaction_intensity:
  "planet.distance c < planet.distance cur \<Longrightarrow>
   shadow_info.intensity (calculateShadowInteraction ar c cur) = spec_contribution ar cur c"
  by (simp add: calculateShadowInteraction_def spec_contribution_def)

lemma interaction_larger:
  assumes "planet.size_km cur < planet.size_km c"
    and "roundingRespects ar (planet.size_km cur)"
    and "planet.distance c < planet.distance cur"
  shows "(shadow_info.intensity (calculateShadowInteraction ar c cur) = 1 \<and>
          shadow_info.type (calculateShadowInteraction ar c cur) = ''complete'') \<or>
         (shadow_info.intensity (calculateShadowInteraction ar c cur) = 0.6 \<and>
          shadow_info.type (calculateShadowInteraction ar c cur) = ''partial'')"
proof -
  have gt: "js_times ar (planet.size_km cur) (js_literal ar 0.9) < planet.size_km c \<or>
            js_times ar (planet.size_km cur) (js_literal ar 1.1) < planet.size_km c"
    using assms(1,2) unfolding roundingRespects_def
    by (cases "0 < planet.size_km cur") auto
  show ?thesis
    using gt assms(3) by (auto simp: calculateShadowInteraction_def)
qed

lemma foldl_analyzeShadowCaster:
  "map caster (fst (foldl (analyzeShadowCaster ar cur) (ds, t) cs)) =
     map caster ds @ map planet.name (filter (\<lambda>c. planet.distance c < planet.distance cur) cs) \<and>
   map shadow_detail.intensity (fst (foldl (analyzeShadowCaster ar cur) (ds, t) cs)) =
     map shadow_detail.intensity ds @
     map (\<lambda>c. shadow_info.intensity (calculateShadowInteraction ar c cur))
       (filter (\<lambda>c. planet.distance c < planet.distance cur) cs) \<and>
   map shadow_detail.type (fst (foldl (analyzeShadowCaster ar cur) (ds, t) cs)) =
     map shadow_detail.type ds @
     map (\<lambda>c. shadow_info.type (calculateShadowInteraction ar c cur))
       (filter (\<lambda>c. planet.distance c < planet.distance cur) cs) \<and>
   snd (foldl (analyzeShadowCaster ar cur) (ds, t) cs) =
     t + sum_list (map (\<lambda>c. shadow_info.intensity (calculateShadowInteraction ar c cur))
           (filter (\<lambda>c. planet.distance c < planet.distance cur) cs))"
proof (induction cs arbitrary: ds t)
  case Nil
  then show ?case by simp
next
  case (Cons c cs)
  show ?case
  proof (cases "planet.distance c < planet.distance cur")
    case True
    then have step: "analyzeShadowCaster ar cur (ds, t) c =
        (ds @ [\<lparr>caster = planet.name c,
                 type = shadow_info.type (calculateShadowInteraction ar c cur),
                 intensity = shadow_info.intensity (calculateShadowInteraction ar c cur)\<rparr>],
         t + shadow_info.intensity (calculateShadowInteraction ar c cur))"
      by (simp add: analyzeShadowCaster_def Let_def interaction_hasShadow)
    show ?thesis
      using True Cons.IH by (simp add: step)
  next
    case False
    then have step: "analyzeShadowCaster ar cur (ds, t) c = (ds, t)"
      by (simp add: analyzeShadowCaster_def Let_def interaction_hasShadow)
    show ?thesis
      using False Cons.IH by (simp add: step)
  qed
qed

lemma shadowCastersOf_larger:
  "c \<in> set (shadowCastersOf ps i) \<Longrightarrow>
   planet.size_km (ps ! i) < planet.size_km c \<and> planet.distance c < planet.distance (ps ! i)"
  by (auto simp: shadowCastersOf_def)

lemma getScientificShadowAnalysis_in_range:
  assumes "i < length ps"
  shows "\<exists>a. getScientificShadowAnalysis ar ps i = Inr a \<and>
           map caster (shadow_analysis.shadowDetails a) = map planet.name (shadowCastersOf ps i) \<and>
           map shadow_detail.intensity (shadow_analysis.shadowDetails a) =
             map (\<lambda>c. shadow_info.intensity (calculateShadowInteraction ar c (ps ! i)))
               (shadowCastersOf ps i) \<and>
           map shadow_detail.type (shadow_analysis.shadowDetails a) =
             map (\<lambda>c. shadow_info.type (calculateShadowInteraction ar c (ps ! i)))
               (shadowCastersOf ps i) \<and>
           lightIntensity a =
             max 0 (1 - min (sum_list (map (\<lambda>c. shadow_info.intensity
                                (calculateShadowInteraction ar c (ps ! i))) (shadowCastersOf ps i))) 1)"
proof (cases "i = 0")
  case True
  then show ?thesis
    by (simp add: getScientificShadowAnalysis_def shadowCastersOf_def)
next
  case False
  let ?cur = "ps ! i"
  let ?cs = "filter (\<lambda>c. planet.size_km c > planet.size_km ?cur) (take i ps)"
  have ne: "take i ps \<noteq> []"
    using False assms by auto
  obtain ds t where f: "foldl (analyzeShadowCaster ar ?cur) ([], 0) ?cs = (ds, t)"
    by (cases "foldl (analyzeShadowCaster ar ?cur) ([], 0) ?cs") blast
  have a: "getScientificShadowAnalysis ar ps i =
      Inr \<lparr>shadow_analysis.shadowCount = length ?cs,
           totalShadowIntensity = min t 1,
           shadowDetails = ds,
           lightIntensity = max 0 (1 - min t 1)\<rparr>"
    using False assms ne by (simp add: getScientificShadowAnalysis_def Let_def f)
  from foldl_analyzeShadowCaster [of ar ?cur "[]" 0 ?cs]
  show ?thesis
    by (simp add: a f shadowCastersOf_def)
qed

lemma getScientificShadowAnalysis_out_of_range:
  assumes "getScientificShadowAnalysis ar ps i = Inr a"
  shows "i < length ps \<or> shadow_analysis.shadowDetails a = []"
proof (cases "i = 0")
  case True
  with assms show ?thesis
    by (auto simp: getScientificShadowAnalysis_def)
next
  case False
  with assms show ?thesis
    by (auto simp: getScientificShadowAnalysis_def split: if_splits)
qed

lemma spec_contribution_casters:
  "map (\<lambda>c. shadow_info.intensity (calculateShadowInteraction ar c (ps ! i))) (shadowCastersOf ps i) =
   map (spec_contribution ar (ps ! i)) (shadowCastersOf ps i)"
  by (rule map_cong) (simp_all add: shadowCastersOf_larger interaction_intensity)

lemma spec_contribution_nonneg: "0 \<le> spec_contribution ar r c"
  by (simp add: spec_contribution_def)

lemma sum_spec_contribution_nonneg: "0 \<le> sum_list (map (spec_contribution ar r) cs)"
  by (rule sum_list_nonneg) (auto simp: spec_contribution_nonneg)

lemma validatePlanet_throws_iff:
  "(validatePlanet host p = Inl TypeError) =
     (case planet_object.name p of JNum n \<Rightarrow> True | JBool b \<Rightarrow> True | _ \<Rightarrow> False)"
  by (simp add: validatePlanet_def optionalTrim_def Let_def split: jsval.splits)

lemma js_le_zero: "js_le n (Number 0) = (n = NegInfinity \<or> (\<exists>r. n = Number r \<and> r \<le> 0))"
  by (cases n) (auto simp: js_le_def)


lemma validatePlanetStep_pair:
  "validatePlanetStep host (errs, vs) (i, p) =
     (case validatePlanet host p of
        Inl e \<Rightarrow> Inl e
      | Inr validation \<Rightarrow>
          if \<not> planet_validation.isValid validation
          then Inr (errs @ [planetErrorLine i validation], vs)
          else Inr (errs, vs @ [planet validation]))"
  by (simp add: validatePlanetStep_def)






lemmas validation_eval =
  validatePlanetStep_def validatePlanet_def optionalTrim_def toNumber_def parseFloatOf_def
  trim_def isWhiteSpace_def js_le_def Let_def numericHost_def























lemma validatePlanet_errors_complete:
  assumes "validatePlanet host p = Inr v"
  shows "((case planet_object.name p of JStr s \<Rightarrow> trim s = [] | _ \<Rightarrow> True) =
            (''Planet name is required and must be a non-empty string''
               \<in> set (planet_validation.errors v))) \<and>
         ((case planet_object.distance p of JNum n \<Rightarrow> js_le n (Number 0) | _ \<Rightarrow> True) =
            (''Distance must be a positive number (AU)'' \<in> set (planet_validation.errors v))) \<and>
         ((case planet_object.size_km p of JNum n \<Rightarrow> js_le n (Number 0) | _ \<Rightarrow> True) =
            (''Size must be a positive number (km diameter)''
               \<in> set (planet_validation.errors v))) \<and>
         planet_validation.isValid v = (planet_validation.errors v = [])"
proof -
  have e: "trim [] = []"
    by (simp add: trim_def)
  have n: "(case planet_object.name p of
              JStr s \<Rightarrow> s = [] \<or> length (trim s) = 0
            | JUndefined \<Rightarrow> True | JNull \<Rightarrow> True | JBool b \<Rightarrow> True | JNum n \<Rightarrow> True) =
           (case planet_object.name p of JStr s \<Rightarrow> trim s = [] | _ \<Rightarrow> True)"
    by (cases "planet_object.name p") (auto simp: e)
  obtain t where t: "optionalTrim (planet_object.name p) = Inr t"
    using assms by (cases "optionalTrim (planet_object.name p)") (simp_all add: validatePlanet_def Let_def)
  have "v = projr (validatePlanet host p)"
    using assms by simp
  then show ?thesis
    unfolding validatePlanet_def Let_def t n by simp
qed

section \<open>Properties of the classifiers\<close>

text \<open>
  C1. For every collection of bodies, the sequence that the classifiers work on is the
  input sorted ascending by distance: it is sorted, it holds the same bodies as the
  input, and bodies at the same distance keep their input order. Both the primary
  classifier and the scientific variant return one result per body, and the result at
  sorted position \<open>i\<close> is the body at that position with the label of the
  specification's rule: Full at position 0; otherwise None when exactly one closer body
  is strictly larger, None (Multiple Shadows) when more than one is, and Partial when
  none is.
\<close>

theorem C1_classification_rule:
  assumes "i < length bodies"
  shows "sorted (map planet.distance (sortByDistance bodies)) \<and>
         mset (sortByDistance bodies) = mset bodies \<and>
         filter (\<lambda>b. planet.distance b = d) (sortByDistance bodies) =
           filter (\<lambda>b. planet.distance b = d) bodies \<and>
         (\<exists>rs ss. calculateLightIntensity bodies = Inr rs \<and>
            calculateScientificLightIntensity ar bodies = Inr ss \<and>
            length rs = length bodies \<and> length ss = length bodies \<and>
            planet.truncate (rs ! i) = sortByDistance bodies ! i \<and>
            planet.truncate (ss ! i) = sortByDistance bodies ! i \<and>
            light_result.light (rs ! i) = spec_classification (sortByDistance bodies) i \<and>
            scientific_result.light (ss ! i) = spec_classification (sortByDistance bodies) i)"
proof -
  have r: "\<exists>rs ss. calculateLightIntensity bodies = Inr rs \<and>
            calculateScientificLightIntensity ar bodies = Inr ss \<and>
            length rs = length bodies \<and> length ss = length bodies \<and>
            planet.truncate (rs ! i) = sortByDistance bodies ! i \<and>
            planet.truncate (ss ! i) = sortByDistance bodies ! i \<and>
            light_result.light (rs ! i) = spec_classification (sortByDistance bodies) i \<and>
            scientific_result.light (ss ! i) = spec_classification (sortByDistance bodies) i"
    using assms calculateLightIntensity_results [of bodies]
      calculateScientificLightIntensity_results [of ar bodies]
    by blast
  show ?thesis
    using r sorted_sortByDistance [of bodies] mset_sortByDistance [of bodies]
      sortByDistance_stable [of d bodies]
    by blast
qed

theorem C1_classification_rule_witness:
  "(2::nat) < length defaultLumoriaPlanets \<and>
   sortByDistance defaultLumoriaPlanets =
     [\<lparr>planet.name = ''Mercuria'', distance = 0.4, size_km = 4879\<rparr>,
      \<lparr>planet.name = ''Venusia'', distance = 0.7, size_km = 12104\<rparr>,
      \<lparr>planet.name = ''Earthia'', distance = 1, size_km = 12742\<rparr>,
      \<lparr>planet.name = ''Marsia'', distance = 1.5, size_km = 6779\<rparr>] \<and>
   defaultLumoriaPlanets ! 2 = \<lparr>planet.name = ''Venusia'', distance = 0.7, size_km = 12104\<rparr> \<and>
   (\<exists>rs ss. calculateLightIntensity defaultLumoriaPlanets = Inr rs \<and>
      calculateScientificLightIntensity exactArithmetic defaultLumoriaPlanets = Inr ss \<and>
      planet.truncate (rs ! 2) = \<lparr>planet.name = ''Earthia'', distance = 1, size_km = 12742\<rparr> \<and>
      planet.truncate (ss ! 2) = \<lparr>planet.name = ''Earthia'', distance = 1, size_km = 12742\<rparr> \<and>
      light_result.light (rs ! 2) = ''Partial'' \<and>
      scientific_result.light (ss ! 2) = ''Partial'')"
proof -
  have h: "(2::nat) < length defaultLumoriaPlanets"
    by (simp add: defaultLumoriaPlanets_def)
  have u: "defaultLumoriaPlanets ! 2 =
             \<lparr>planet.name = ''Venusia'', distance = 0.7, size_km = 12104\<rparr>"
    by (simp add: defaultLumoriaPlanets_def)
  have m: "sortByDistance defaultLumoriaPlanets ! 2 =
             \<lparr>planet.name = ''Earthia'', distance = 1, size_km = 12742\<rparr>"
    by (simp add: sortByDistance_default)
  have c: "spec_classification (sortByDistance defaultLumoriaPlanets) 2 = ''Partial''"
    by (simp add: sortByDistance_default spec_classification_def spec_largerCloser_def)
  show ?thesis
    using h u sortByDistance_default
      C1_classification_rule [OF h, where d = 0 and ar = exactArithmetic] unfolding m c by blast
qed

text \<open>
  C3. For every input list, in any order, both classifiers return (no exception) exactly
  one result per input body: the bodies of the results are the input bodies, each as
  often as it occurs in the input, and the results are sorted ascending by distance.
  The empty input yields the empty output.
\<close>

theorem C3_one_result_per_body_sorted:
  "(\<exists>rs ss. calculateLightIntensity bodies = Inr rs \<and>
           calculateScientificLightIntensity ar bodies = Inr ss \<and>
           length rs = length bodies \<and> length ss = length bodies \<and>
           mset (map planet.truncate rs) = mset bodies \<and>
           mset (map planet.truncate ss) = mset bodies \<and>
           sorted (map planet.distance rs) \<and> sorted (map planet.distance ss)) \<and>
   calculateLightIntensity [] = Inr [] \<and> calculateScientificLightIntensity ar [] = Inr []"
proof -
  obtain rs where rs: "calculateLightIntensity bodies = Inr rs" "length rs = length bodies"
    "\<And>i. i < length bodies \<Longrightarrow> planet.truncate (rs ! i) = sortByDistance bodies ! i"
    using calculateLightIntensity_results [of bodies] by blast
  obtain ss where ss: "calculateScientificLightIntensity ar bodies = Inr ss" "length ss = length bodies"
    "\<And>i. i < length bodies \<Longrightarrow> planet.truncate (ss ! i) = sortByDistance bodies ! i"
    using calculateScientificLightIntensity_results [of ar bodies] by blast
  have r: "map planet.truncate rs = sortByDistance bodies"
    by (rule nth_equalityI) (simp_all add: rs length_sortByDistance)
  have s: "map planet.truncate ss = sortByDistance bodies"
    by (rule nth_equalityI) (simp_all add: ss length_sortByDistance)
  have dr: "map planet.distance rs = map planet.distance (map planet.truncate rs)"
    by (simp add: planet.truncate_def)
  have ds: "map planet.distance ss = map planet.distance (map planet.truncate ss)"
    by (simp add: planet.truncate_def)
  have m1: "mset (map planet.truncate rs) = mset bodies"
    by (simp only: r mset_sortByDistance)
  have m2: "mset (map planet.truncate ss) = mset bodies"
    by (simp only: s mset_sortByDistance)
  have s1: "sorted (map planet.distance rs)"
    by (simp only: dr r sorted_sortByDistance)
  have s2: "sorted (map planet.distance ss)"
    by (simp only: ds s sorted_sortByDistance)
  have e1: "calculateLightIntensity [] = Inr []"
    by (simp add: calculateLightIntensity_def sortByDistance_def)
  have e2: "calculateScientificLightIntensity ar [] = Inr []"
    by (simp add: calculateScientificLightIntensity_def sortByDistance_def)
  show ?thesis
    using rs(1,2) ss(1,2) m1 m2 s1 s2 e1 e2 by blast
qed

theorem C3_one_result_per_body_sorted_witness:
  "(\<exists>rs ss. calculateLightIntensity defaultLumoriaPlanets = Inr rs \<and>
           calculateScientificLightIntensity exactArithmetic defaultLumoriaPlanets = Inr ss \<and>
           length rs = length defaultLumoriaPlanets \<and>
           length ss = length defaultLumoriaPlanets \<and>
           mset (map planet.truncate rs) = mset defaultLumoriaPlanets \<and>
           mset (map planet.truncate ss) = mset defaultLumoriaPlanets \<and>
           sorted (map planet.distance rs) \<and> sorted (map planet.distance ss)) \<and>
   calculateLightIntensity [] = Inr [] \<and> calculateScientificLightIntensity exactArithmetic [] = Inr []"
  by (rule C3_one_result_per_body_sorted [where bodies = defaultLumoriaPlanets and ar = exactArithmetic])

text \<open>
  C6. For every input, the scientific variant and the primary classifier return results
  for the same bodies in the same order, and the categorical label of each body is the
  same in both: computing the fractional light value never changes the label.
\<close>

theorem C6_labels_agree:
  "\<exists>rs ss. calculateLightIntensity bodies = Inr rs \<and>
           calculateScientificLightIntensity ar bodies = Inr ss \<and>
           map planet.truncate ss = map planet.truncate rs \<and>
           map scientific_result.light ss = map light_result.light rs"
proof -
  obtain rs where rs: "calculateLightIntensity bodies = Inr rs" "length rs = length bodies"
    "\<And>i. i < length bodies \<Longrightarrow> planet.truncate (rs ! i) = sortByDistance bodies ! i"
    "\<And>i. i < length bodies \<Longrightarrow>
       light_result.light (rs ! i) = spec_classification (sortByDistance bodies) i"
    using calculateLightIntensity_results [of bodies] by blast
  obtain ss where ss: "calculateScientificLightIntensity ar bodies = Inr ss" "length ss = length bodies"
    "\<And>i. i < length bodies \<Longrightarrow> planet.truncate (ss ! i) = sortByDistance bodies ! i"
    "\<And>i. i < length bodies \<Longrightarrow>
       scientific_result.light (ss ! i) = spec_classification (sortByDistance bodies) i"
    using calculateScientificLightIntensity_results [of ar bodies] by blast
  have t: "map planet.truncate ss = map planet.truncate rs"
    by (rule nth_equalityI) (simp_all add: rs ss)
  have l: "map scientific_result.light ss = map light_result.light rs"
    by (rule nth_equalityI) (simp_all add: rs ss)
  show ?thesis
    using rs(1) ss(1) t l by blast
qed

theorem C6_labels_agree_witness:
  "\<exists>rs ss. calculateLightIntensity defaultLumoriaPlanets = Inr rs \<and>
           calculateScientificLightIntensity exactArithmetic defaultLumoriaPlanets = Inr ss \<and>
           map planet.truncate ss = map planet.truncate rs \<and>
           map scientific_result.light ss = map light_result.light rs"
  by (rule C6_labels_agree [where bodies = defaultLumoriaPlanets and ar = exactArithmetic])

text \<open>
  C2. On the canonical four-body system (Mercuria 0.4/4879, Venusia 0.7/12104, Earthia
  1.0/12742, Marsia 1.5/6779), given in the order of the default Lumoria planets or in
  ascending distance, the classification is: Mercuria Full, Venusia Partial, Earthia
  Partial, Marsia None (Multiple Shadows).
\<close>

theorem C2_canonical_system:
  "map_sum id (map (\<lambda>r. (planet.name r, planet.distance r, planet.size_km r, light_result.light r)))
     (calculateLightIntensity defaultLumoriaPlanets) =
   Inr [(''Mercuria'', 0.4, 4879, ''Full''),
        (''Venusia'', 0.7, 12104, ''Partial''),
        (''Earthia'', 1.0, 12742, ''Partial''),
        (''Marsia'', 1.5, 6779, ''None (Multiple Shadows)'')] \<and>
   map_sum id (map (\<lambda>r. (planet.name r, planet.distance r, planet.size_km r, light_result.light r)))
     (calculateLightIntensity
        [\<lparr>planet.name = ''Mercuria'', distance = 0.4, size_km = 4879\<rparr>,
         \<lparr>planet.name = ''Venusia'', distance = 0.7, size_km = 12104\<rparr>,
         \<lparr>planet.name = ''Earthia'', distance = 1, size_km = 12742\<rparr>,
         \<lparr>planet.name = ''Marsia'', distance = 1.5, size_km = 6779\<rparr>]) =
   Inr [(''Mercuria'', 0.4, 4879, ''Full''),
        (''Venusia'', 0.7, 12104, ''Partial''),
        (''Earthia'', 1.0, 12742, ''Partial''),
        (''Marsia'', 1.5, 6779, ''None (Multiple Shadows)'')]"
proof -
  let ?sorted = "[\<lparr>planet.name = ''Mercuria'', distance = 0.4, size_km = 4879\<rparr>,
         \<lparr>planet.name = ''Venusia'', distance = 0.7, size_km = 12104\<rparr>,
         \<lparr>planet.name = ''Earthia'', distance = 1, size_km = 12742\<rparr>,
         \<lparr>planet.name = ''Marsia'', distance = 1.5, size_km = 6779\<rparr>]"
  have s: "sortByDistance ?sorted = ?sorted"
    by (simp add: sortByDistance_def)
  have a: "map_sum id (map (\<lambda>r. (planet.name r, planet.distance r, planet.size_km r, light_result.light r)))
     (calculateLightIntensity defaultLumoriaPlanets) =
   Inr [(''Mercuria'', 0.4, 4879, ''Full''),
        (''Venusia'', 0.7, 12104, ''Partial''),
        (''Earthia'', 1.0, 12742, ''Partial''),
        (''Marsia'', 1.5, 6779, ''None (Multiple Shadows)'')]"
    by (simp add: calculateLightIntensity_def sortByDistance_default enumerate_eq_zip upt_rec
        lightIntensityEntry_def getShadowCount_def getLightIntensity_def)
  have b: "map_sum id (map (\<lambda>r. (planet.name r, planet.distance r, planet.size_km r, light_result.light r)))
     (calculateLightIntensity ?sorted) =
   Inr [(''Mercuria'', 0.4, 4879, ''Full''),
        (''Venusia'', 0.7, 12104, ''Partial''),
        (''Earthia'', 1.0, 12742, ''Partial''),
        (''Marsia'', 1.5, 6779, ''None (Multiple Shadows)'')]"
    unfolding calculateLightIntensity_def s
    by (simp add: enumerate_eq_zip upt_rec
        lightIntensityEntry_def getShadowCount_def getLightIntensity_def)
  show ?thesis
    using a b by (rule conjI)
qed

text \<open>
  C5. For every two bodies of equal size and different distances, given in either order,
  the nearer one is classified Full and the farther one Partial: a closer body of exactly
  equal size is not a larger shadow caster.
\<close>

theorem C5_equal_sizes:
  assumes "planet.size_km a = planet.size_km b" and "planet.distance a < planet.distance b"
    and "bodies = [a, b] \<or> bodies = [b, a]"
  shows "\<exists>r1 r2. calculateLightIntensity bodies = Inr [r1, r2] \<and>
           planet.truncate r1 = a \<and> light_result.light r1 = ''Full'' \<and>
           planet.truncate r2 = b \<and> light_result.light r2 = ''Partial''"
proof -
  have s: "sortByDistance bodies = [a, b]"
    using assms(2,3) sort_two by blast
  show ?thesis
    using assms(1)
    by (simp add: calculateLightIntensity_def s enumerate_eq_zip upt_rec
        lightIntensityEntry_def getShadowCount_def getLightIntensity_def planet.truncate_def)
qed

theorem C5_equal_sizes_witness:
  "planet.size_km \<lparr>planet.name = ''Twin1'', distance = 0.5, size_km = 10000\<rparr> =
   planet.size_km \<lparr>planet.name = ''Twin2'', distance = 1.0, size_km = 10000\<rparr> \<and>
   planet.distance \<lparr>planet.name = ''Twin1'', distance = 0.5, size_km = 10000\<rparr> <
   planet.distance \<lparr>planet.name = ''Twin2'', distance = 1.0, size_km = 10000\<rparr> \<and>
   (\<exists>r1 r2. calculateLightIntensity
       [\<lparr>planet.name = ''Twin2'', distance = 1.0, size_km = 10000\<rparr>,
        \<lparr>planet.name = ''Twin1'', distance = 0.5, size_km = 10000\<rparr>] = Inr [r1, r2] \<and>
      planet.truncate r1 = \<lparr>planet.name = ''Twin1'', distance = 0.5, size_km = 10000\<rparr> \<and>
      light_result.light r1 = ''Full'' \<and>
      planet.truncate r2 = \<lparr>planet.name = ''Twin2'', distance = 1.0, size_km = 10000\<rparr> \<and>
      light_result.light r2 = ''Partial'')"
  using C5_equal_sizes [of "\<lparr>planet.name = ''Twin1'', distance = 0.5, size_km = 10000\<rparr>"
      "\<lparr>planet.name = ''Twin2'', distance = 1.0, size_km = 10000\<rparr>"
      "[\<lparr>planet.name = ''Twin2'', distance = 1.0, size_km = 10000\<rparr>,
        \<lparr>planet.name = ''Twin1'', distance = 0.5, size_km = 10000\<rparr>]"]
  by simp

text \<open>
  C4, as stated, fails on the first variant: on its default planets the body of minimal
  distance, Mercuria, is labelled None, not Full.
\<close>

theorem C4_counterexample:
  "shadow (hd (lumoriaLightIntensities defaultPlanets)) = ''None'' \<and>
   shadow (hd (lumoriaLightIntensities defaultPlanets)) \<noteq> ''Full''"
  by (simp add: lumoriaLightIntensities_def defaultPlanets_def calculateLightIntensities_def
      enumerate_eq_zip upt_rec lightIntensitiesEntry_def ShadowType_NONE_def)

text \<open>
  C4, amended. For every non-empty input, the first result of the primary classifier and
  of the scientific variant is a body of the input whose distance is minimal, and it is
  classified Full. The first variant (\<^verbatim>\<open>calculateLightIntensities\<close> on the sorted
  input), whose label names the shadow and not the light, gives the body of minimal
  distance the label None.
\<close>

theorem C4_first_body_full:
  assumes "bodies \<noteq> []" and "lbodies \<noteq> []"
  shows "(\<exists>rs ss. calculateLightIntensity bodies = Inr rs \<and>
            calculateScientificLightIntensity ar bodies = Inr ss \<and>
            planet.truncate (hd rs) \<in> set bodies \<and>
            planet.truncate (hd ss) = planet.truncate (hd rs) \<and>
            (\<forall>b \<in> set bodies. planet.distance (hd rs) \<le> planet.distance b) \<and>
            light_result.light (hd rs) = ''Full'' \<and>
            scientific_result.light (hd ss) = ''Full'') \<and>
         lumoria_planet.truncate (hd (lumoriaLightIntensities lbodies)) \<in> set lbodies \<and>
         (\<forall>b \<in> set lbodies. lumoria_planet.distance (hd (lumoriaLightIntensities lbodies))
                               \<le> lumoria_planet.distance b) \<and>
         shadow (hd (lumoriaLightIntensities lbodies)) = ''None''"
proof -
  let ?ps = "sortByDistance bodies"
  have pos: "0 < length bodies"
    using assms(1) by simp
  obtain rs where rs: "calculateLightIntensity bodies = Inr rs" "length rs = length bodies"
    "planet.truncate (rs ! 0) = ?ps ! 0"
    "light_result.light (rs ! 0) = spec_classification ?ps 0"
    using calculateLightIntensity_results [of bodies] pos by blast
  obtain ss where ss: "calculateScientificLightIntensity ar bodies = Inr ss" "length ss = length bodies"
    "planet.truncate (ss ! 0) = ?ps ! 0"
    "scientific_result.light (ss ! 0) = spec_classification ?ps 0"
    using calculateScientificLightIntensity_results [of ar bodies] pos by blast
  have ne: "?ps \<noteq> []" "rs \<noteq> []" "ss \<noteq> []"
    using pos rs(2) ss(2) length_sortByDistance [of bodies] by auto
  have hr: "hd rs = rs ! 0" and hs: "hd ss = ss ! 0" and hp: "hd ?ps = ?ps ! 0"
    using ne by (simp_all add: hd_conv_nth)
  have set_ps: "set ?ps = set bodies"
    by (simp add: sortByDistance_def)
  have mem: "planet.truncate (hd rs) \<in> set bodies"
    using ne(1) set_ps hd_in_set [of ?ps] by (simp add: hr rs(3) hp [symmetric])
  have dist: "planet.distance (hd rs) = planet.distance (hd ?ps)"
    using arg_cong [OF rs(3), of planet.distance] by (simp add: hr hp planet.truncate_def)
  have le: "\<forall>b \<in> set bodies. planet.distance (hd rs) \<le> planet.distance b"
    using hd_sorted_le [OF sorted_sortByDistance [of bodies]] set_ps by (simp add: dist)
  have full: "spec_classification ?ps 0 = ''Full''"
    by (simp add: spec_classification_def)
  have first: "\<exists>rs ss. calculateLightIntensity bodies = Inr rs \<and>
            calculateScientificLightIntensity ar bodies = Inr ss \<and>
            planet.truncate (hd rs) \<in> set bodies \<and>
            planet.truncate (hd ss) = planet.truncate (hd rs) \<and>
            (\<forall>b \<in> set bodies. planet.distance (hd rs) \<le> planet.distance b) \<and>
            light_result.light (hd rs) = ''Full'' \<and>
            scientific_result.light (hd ss) = ''Full''"
    using rs(1) ss(1) mem le rs(3,4) ss(3,4) full by (auto simp: hr hs)
  let ?ls = "sort_key lumoria_planet.distance lbodies"
  have lne: "?ls \<noteq> []"
    using assms(2) by (metis length_sort length_0_conv)
  have ltr: "lumoria_planet.truncate (hd (lumoriaLightIntensities lbodies)) = hd ?ls"
    and lsh: "shadow (hd (lumoriaLightIntensities lbodies)) = ''None''"
    using lumoriaLightIntensities_hd [OF assms(2)] by simp_all
  have lmem: "lumoria_planet.truncate (hd (lumoriaLightIntensities lbodies)) \<in> set lbodies"
    using hd_in_set [OF lne] by (simp add: ltr)
  have ldist: "lumoria_planet.distance (hd (lumoriaLightIntensities lbodies)) =
      lumoria_planet.distance (hd ?ls)"
    using arg_cong [OF ltr, of lumoria_planet.distance] by (simp add: lumoria_planet.truncate_def)
  have lle: "\<forall>b \<in> set lbodies. lumoria_planet.distance (hd (lumoriaLightIntensities lbodies))
                               \<le> lumoria_planet.distance b"
    using hd_sorted_le [of lumoria_planet.distance ?ls] by (simp add: ldist)
  show ?thesis
    using first lmem lle lsh by blast
qed

theorem C4_first_body_full_witness:
  "defaultLumoriaPlanets \<noteq> [] \<and> defaultPlanets \<noteq> [] \<and>
   (\<exists>rs ss. calculateLightIntensity defaultLumoriaPlanets = Inr rs \<and>
            calculateScientificLightIntensity exactArithmetic defaultLumoriaPlanets = Inr ss \<and>
            planet.truncate (hd rs) \<in> set defaultLumoriaPlanets \<and>
            planet.truncate (hd ss) = planet.truncate (hd rs) \<and>
            light_result.light (hd rs) = ''Full'' \<and>
            scientific_result.light (hd ss) = ''Full'') \<and>
   lumoria_planet.truncate (hd (lumoriaLightIntensities defaultPlanets)) \<in> set defaultPlanets \<and>
   shadow (hd (lumoriaLightIntensities defaultPlanets)) = ''None''"
proof -
  have h1: "defaultLumoriaPlanets \<noteq> []"
    by (simp add: defaultLumoriaPlanets_def)
  have h2: "defaultPlanets \<noteq> []"
    by (simp add: defaultPlanets_def)
  show ?thesis
    using h1 h2 C4_first_body_full [OF h1 h2] by blast
qed

section \<open>Properties of the scientific variant\<close>

text \<open>
  C7, as stated, fails: with the shadow casters of the glossary (every body closer to the
  star), the formula gives Venusia, behind the smaller Mercuria, the light 1 - 0.3 = 0.7,
  and the scientific variant gives it the light 1 (on the default Lumoria planets, in
  ascending distance: 1, 1, 1, 0). This is so in double arithmetic and with the exact
  products.
\<close>

theorem C7_counterexample:
  "map_sum id (map scientificLightIntensity)
     (calculateScientificLightIntensity doubleArithmetic defaultLumoriaPlanets) =
     Inr [1, 1, 1, 0] \<and>
   planet.name (sortByDistance defaultLumoriaPlanets ! 1) = ''Venusia'' \<and>
   spec_lightFraction doubleArithmetic (sortByDistance defaultLumoriaPlanets) 1 = 0.7 \<and>
   map_sum id (map scientificLightIntensity)
     (calculateScientificLightIntensity exactArithmetic defaultLumoriaPlanets) =
     Inr [1, 1, 1, 0] \<and>
   spec_lightFraction exactArithmetic (sortByDistance defaultLumoriaPlanets) 1 = 0.7"
proof -
  have l11: "js_literal doubleArithmetic 1.1 = 2476979795053773 / 2251799813685248"
    by (simp add: doubleArithmetic_def roundDouble_eval)
  have l09: "js_literal doubleArithmetic 0.9 = 8106479329266893 / 9007199254740992"
    by (simp add: doubleArithmetic_def roundDouble_eval)
  have m1: "js_times doubleArithmetic 6779 (2476979795053773 / 2251799813685248) < 12104"
    by (simp add: doubleArithmetic_def roundDouble_eval)
  have v1: "4879 \<le> js_times doubleArithmetic 12104 (2476979795053773 / 2251799813685248)"
    by (simp add: doubleArithmetic_def roundDouble_eval)
  have v0: "4879 \<le> js_times doubleArithmetic 12104 (8106479329266893 / 9007199254740992)"
    by (simp add: doubleArithmetic_def roundDouble_eval)
  have a: "map_sum id (map scientificLightIntensity)
     (calculateScientificLightIntensity doubleArithmetic defaultLumoriaPlanets) =
     Inr [1, 1, 1, 0]"
    using m1
    by (simp add: calculateScientificLightIntensity_def sortByDistance_default enumerate_eq_zip
        upt_rec scientificEntry_def getScientificShadowAnalysis_def analyzeShadowCaster_def
        calculateShadowInteraction_def l11 Let_def)
  have b: "planet.name (sortByDistance defaultLumoriaPlanets ! 1) = ''Venusia''"
    by (simp add: sortByDistance_default)
  have c: "spec_lightFraction doubleArithmetic (sortByDistance defaultLumoriaPlanets) 1 = 0.7"
    using v1 v0
    by (simp add: spec_lightFraction_def spec_contribution_def sortByDistance_default l11 l09)
  have d: "map_sum id (map scientificLightIntensity)
     (calculateScientificLightIntensity exactArithmetic defaultLumoriaPlanets) =
     Inr [1, 1, 1, 0]"
    by (simp add: calculateScientificLightIntensity_def sortByDistance_default enumerate_eq_zip
        upt_rec scientificEntry_def getScientificShadowAnalysis_def analyzeShadowCaster_def
        calculateShadowInteraction_def exactArithmetic_def Let_def)
  have e: "spec_lightFraction exactArithmetic (sortByDistance defaultLumoriaPlanets) 1 = 0.7"
    by (simp add: spec_lightFraction_def spec_contribution_def sortByDistance_default
        exactArithmetic_def)
  show ?thesis
    using a b c d e by blast
qed

text \<open>
  C7, amended. For every body, at any sorted position \<open>i\<close>, the fractional light value
  of the scientific variant lies between 0 and 1 and is 1 minus the sum, clamped to 1.0,
  of the contributions of the bodies before it in sorted order that are strictly larger
  and strictly closer to the star, the only shadow casters it analyses (a closer body
  that is not larger contributes nothing). The contribution of such a caster is 1.0 when
  its size exceeds the receiver's size times 1.1, else 0.6 when it exceeds the receiver's
  size times 0.9, else 0.3, with the products as the code computes them; the shadow
  details list exactly these casters with these contributions.
\<close>

theorem C7_fractional_light:
  assumes "i < length bodies"
  shows "\<exists>ss. calculateScientificLightIntensity ar bodies = Inr ss \<and>
           0 \<le> scientificLightIntensity (ss ! i) \<and> scientificLightIntensity (ss ! i) \<le> 1 \<and>
           scientificLightIntensity (ss ! i) =
             1 - min (sum_list (map (spec_contribution ar (sortByDistance bodies ! i))
                                    (shadowCastersOf (sortByDistance bodies) i))) 1.0 \<and>
           map caster (scientific_result.shadowDetails (ss ! i)) =
             map planet.name (shadowCastersOf (sortByDistance bodies) i) \<and>
           map shadow_detail.intensity (scientific_result.shadowDetails (ss ! i)) =
             map (spec_contribution ar (sortByDistance bodies ! i))
               (shadowCastersOf (sortByDistance bodies) i)"
proof -
  let ?ps = "sortByDistance bodies"
  let ?total = "sum_list (map (spec_contribution ar (?ps ! i)) (shadowCastersOf ?ps i))"
  obtain ss a where ss: "calculateScientificLightIntensity ar bodies = Inr ss"
    and a: "getScientificShadowAnalysis ar ?ps i = Inr a"
    and li: "scientificLightIntensity (ss ! i) = lightIntensity a"
    and sd: "scientific_result.shadowDetails (ss ! i) = shadow_analysis.shadowDetails a"
    using calculateScientificLightIntensity_results [of ar bodies] assms by blast
  have i: "i < length ?ps"
    using assms by (simp add: length_sortByDistance)
  from getScientificShadowAnalysis_in_range [OF i, of ar] a
  have c: "map caster (shadow_analysis.shadowDetails a) = map planet.name (shadowCastersOf ?ps i)"
    and m: "map shadow_detail.intensity (shadow_analysis.shadowDetails a) =
              map (spec_contribution ar (?ps ! i)) (shadowCastersOf ?ps i)"
    and l: "lightIntensity a = max 0 (1 - min ?total 1)"
    by (auto simp: spec_contribution_casters)
  have nonneg: "0 \<le> ?total"
    by (rule sum_spec_contribution_nonneg)
  have v: "lightIntensity a = 1 - min ?total 1"
    using l nonneg by (simp add: max_def min_def)
  have r: "0 \<le> lightIntensity a \<and> lightIntensity a \<le> 1"
    using v nonneg by (simp add: min_def)
  show ?thesis
    using ss r v c m by (simp add: li sd)
qed

text \<open>
  The witness is in double arithmetic, where 3000 * 1.1 is the double
  3300.0000000000005: a caster of exactly that size does not exceed the product and
  contributes 0.6, so that the receiver keeps the light 0.4.
\<close>

theorem C7_fractional_light_witness:
  "(1::nat) < length
      [\<lparr>planet.name = ''Caster'', distance = 0.5, size_km = 7256776743321601 / 2199023255552\<rparr>,
       \<lparr>planet.name = ''Receiver'', distance = 1, size_km = 3000\<rparr>] \<and>
   (\<exists>ss. calculateScientificLightIntensity doubleArithmetic
      [\<lparr>planet.name = ''Caster'', distance = 0.5, size_km = 7256776743321601 / 2199023255552\<rparr>,
       \<lparr>planet.name = ''Receiver'', distance = 1, size_km = 3000\<rparr>] = Inr ss \<and>
     0 \<le> scientificLightIntensity (ss ! 1) \<and> scientificLightIntensity (ss ! 1) \<le> 1 \<and>
     scientificLightIntensity (ss ! 1) = 0.4 \<and>
     map caster (scientific_result.shadowDetails (ss ! 1)) = [''Caster''] \<and>
     map shadow_detail.intensity (scientific_result.shadowDetails (ss ! 1)) = [0.6])"
proof -
  let ?c = "\<lparr>planet.name = ''Caster'', distance = 0.5, size_km = 7256776743321601 / 2199023255552\<rparr>"
  let ?r = "\<lparr>planet.name = ''Receiver'', distance = 1, size_km = 3000\<rparr>"
  have h: "(1::nat) < length [?c, ?r]"
    by simp
  have s: "sortByDistance [?c, ?r] = [?c, ?r]"
    by (simp add: sortByDistance_def)
  have cs: "shadowCastersOf [?c, ?r] 1 = [?c]"
    by (simp add: shadowCastersOf_def)
  have l11: "js_literal doubleArithmetic 1.1 = 2476979795053773 / 2251799813685248"
    by (simp add: doubleArithmetic_def roundDouble_eval)
  have l09: "js_literal doubleArithmetic 0.9 = 8106479329266893 / 9007199254740992"
    by (simp add: doubleArithmetic_def roundDouble_eval)
  have p11: "js_times doubleArithmetic 3000 (2476979795053773 / 2251799813685248) =
               7256776743321601 / 2199023255552"
    by (simp add: doubleArithmetic_def roundDouble_eval)
  have p09: "js_times doubleArithmetic 3000 (8106479329266893 / 9007199254740992) = 2700"
    by (simp add: doubleArithmetic_def roundDouble_eval)
  have v: "spec_contribution doubleArithmetic ?r ?c = 0.6"
    by (simp add: spec_contribution_def l11 l09 p11 p09)
  have r1: "[?c, ?r] ! 1 = ?r"
    by simp
  have m: "map (spec_contribution doubleArithmetic ?r) [?c] = [0.6]"
    unfolding list.map v by (rule refl)
  have n: "map planet.name [?c] = [''Caster'']"
    by simp
  have e: "1 - min (sum_list [0.6]) 1.0 = (0.4::real)"
    by simp
  show ?thesis
    using h C7_fractional_light [OF h, where ar = doubleArithmetic]
    unfolding s cs r1 m n e by (rule conjI)
qed

text \<open>
  C9. Every shadow contribution that \<^verbatim>\<open>getScientificShadowAnalysis\<close> records in
  \<^verbatim>\<open>shadowDetails\<close> is a complete shadow of intensity 1.0 or a partial shadow of
  intensity 0.6, for every list of bodies (sorted or not) and every position: the
  minimal branch (0.3) of \<^verbatim>\<open>calculateShadowInteraction\<close> is never reached there,
  since only strictly larger casters are analysed. With the exact products this holds
  for all sizes; in double arithmetic it holds for all sizes that are positive doubles.
\<close>

theorem C9_minimal_branch_unreachable:
  assumes "ar = exactArithmetic \<or>
           (ar = doubleArithmetic \<and>
            (\<forall>p \<in> set ps. 0 < planet.size_km p \<and>
                            roundDouble (planet.size_km p) = planet.size_km p))"
    and "getScientificShadowAnalysis ar ps i = Inr a"
    and "d \<in> set (shadow_analysis.shadowDetails a)"
  shows "(shadow_detail.intensity d = 1.0 \<and> shadow_detail.type d = ''complete'') \<or>
         (shadow_detail.intensity d = 0.6 \<and> shadow_detail.type d = ''partial'')"
proof -
  have i: "i < length ps"
    using getScientificShadowAnalysis_out_of_range [OF assms(2)] assms(3) by auto
  from getScientificShadowAnalysis_in_range [OF i, of ar] assms(2)
  have m: "map shadow_detail.intensity (shadow_analysis.shadowDetails a) =
             map (\<lambda>c. shadow_info.intensity (calculateShadowInteraction ar c (ps ! i)))
               (shadowCastersOf ps i)"
    "map shadow_detail.type (shadow_analysis.shadowDetails a) =
             map (\<lambda>c. shadow_info.type (calculateShadowInteraction ar c (ps ! i)))
               (shadowCastersOf ps i)"
    by auto
  from assms(3) obtain k where k: "k < length (shadow_analysis.shadowDetails a)"
    "shadow_analysis.shadowDetails a ! k = d"
    by (auto simp: in_set_conv_nth)
  have len: "length (shadow_analysis.shadowDetails a) = length (shadowCastersOf ps i)"
    using m(1) by (metis length_map)
  let ?c = "shadowCastersOf ps i ! k"
  have c: "?c \<in> set (shadowCastersOf ps i)"
    using k(1) len by simp
  have di: "shadow_detail.intensity d =
      shadow_info.intensity (calculateShadowInteraction ar ?c (ps ! i))"
    using k len arg_cong [OF m(1), of "\<lambda>xs. xs ! k"] by simp
  have dt: "shadow_detail.type d = shadow_info.type (calculateShadowInteraction ar ?c (ps ! i))"
    using k len arg_cong [OF m(2), of "\<lambda>xs. xs ! k"] by simp
  have rr: "roundingRespects ar (planet.size_km (ps ! i))"
    using assms(1) i roundingRespects_exact roundingRespects_double by auto
  from shadowCastersOf_larger [OF c] rr interaction_larger [of "ps ! i" ?c ar]
  show ?thesis
    by (simp add: di dt)
qed

text \<open>
  The witness is in double arithmetic, at the caster of size 3300.0000000000005 before
  the receiver of size 3000: the shadow recorded is partial, of intensity 0.6.
\<close>

theorem C9_minimal_branch_unreachable_witness:
  "roundDouble (7256776743321601 / 2199023255552) = 7256776743321601 / 2199023255552 \<and>
   roundDouble 3000 = 3000 \<and>
   getScientificShadowAnalysis doubleArithmetic
     [\<lparr>planet.name = ''Caster'', distance = 0.5, size_km = 7256776743321601 / 2199023255552\<rparr>,
      \<lparr>planet.name = ''Receiver'', distance = 1, size_km = 3000\<rparr>] 1 =
     Inr \<lparr>shadow_analysis.shadowCount = 1, totalShadowIntensity = 0.6,
          shadowDetails = [\<lparr>caster = ''Caster'', type = ''partial'', intensity = 0.6\<rparr>],
          lightIntensity = 0.4\<rparr> \<and>
   \<lparr>caster = ''Caster'', type = ''partial'', intensity = 0.6\<rparr> \<in>
     set (shadow_analysis.shadowDetails
       \<lparr>shadow_analysis.shadowCount = 1, totalShadowIntensity = 0.6,
          shadowDetails = [\<lparr>caster = ''Caster'', type = ''partial'', intensity = 0.6\<rparr>],
          lightIntensity = 0.4\<rparr>) \<and>
   ((shadow_detail.intensity \<lparr>caster = ''Caster'', type = ''partial'', intensity = 0.6\<rparr> = 1.0 \<and>
     shadow_detail.type \<lparr>caster = ''Caster'', type = ''partial'', intensity = 0.6\<rparr> = ''complete'') \<or>
    (shadow_detail.intensity \<lparr>caster = ''Caster'', type = ''partial'', intensity = 0.6\<rparr> = 0.6 \<and>
     shadow_detail.type \<lparr>caster = ''Caster'', type = ''partial'', intensity = 0.6\<rparr> = ''partial''))"
proof -
  let ?c = "\<lparr>planet.name = ''Caster'', distance = 0.5, size_km = 7256776743321601 / 2199023255552\<rparr>"
  let ?r = "\<lparr>planet.name = ''Receiver'', distance = 1, size_km = 3000\<rparr>"
  let ?d = "\<lparr>caster = ''Caster'', type = ''partial'', intensity = 0.6\<rparr>"
  let ?a = "\<lparr>shadow_analysis.shadowCount = 1, totalShadowIntensity = 0.6,
          shadowDetails = [?d], lightIntensity = 0.4\<rparr>"
  have l11: "js_literal doubleArithmetic 1.1 = 2476979795053773 / 2251799813685248"
    by (simp add: doubleArithmetic_def roundDouble_eval)
  have l09: "js_literal doubleArithmetic 0.9 = 8106479329266893 / 9007199254740992"
    by (simp add: doubleArithmetic_def roundDouble_eval)
  have p11: "js_times doubleArithmetic 3000 (2476979795053773 / 2251799813685248) =
               7256776743321601 / 2199023255552"
    by (simp add: doubleArithmetic_def roundDouble_eval)
  have p09: "js_times doubleArithmetic 3000 (8106479329266893 / 9007199254740992) = 2700"
    by (simp add: doubleArithmetic_def roundDouble_eval)
  have g1: "roundDouble (7256776743321601 / 2199023255552) = 7256776743321601 / 2199023255552"
    by (simp add: roundDouble_eval)
  have g2: "roundDouble 3000 = 3000"
    by (simp add: roundDouble_eval)
  have h0: "doubleArithmetic = exactArithmetic \<or>
            (doubleArithmetic = doubleArithmetic \<and>
             (\<forall>p \<in> set [?c, ?r]. 0 < planet.size_km p \<and>
                                    roundDouble (planet.size_km p) = planet.size_km p))"
    using g1 g2 by simp
  have h1: "getScientificShadowAnalysis doubleArithmetic [?c, ?r] 1 = Inr ?a"
    by (simp add: getScientificShadowAnalysis_def analyzeShadowCaster_def
        calculateShadowInteraction_def Let_def l11 l09 p11 p09)
  have h2: "?d \<in> set (shadow_analysis.shadowDetails ?a)"
    by simp
  show ?thesis
    using g1 g2 h1 h2 C9_minimal_branch_unreachable [OF h0 h1 h2] by blast
qed

section \<open>Properties of the validation\<close>

text \<open>
  C8. \<^verbatim>\<open>validatePlanet\<close> does not return the list of violations for every body that
  violates several constraints at once. For the body
  \<^verbatim>\<open>{ name: 42, distance: 0, size: -5 }\<close> the three errors are collected, and then
  \<^verbatim>\<open>planet.name?.trim()\<close> throws a \<^verbatim>\<open>TypeError\<close> while the result is built: no list
  is returned, and \<^verbatim>\<open>validateStarSystem\<close> on a system with this planet throws too.
  The same body with the blank name \<^verbatim>\<open>' '\<close> gets all three messages. A body whose
  distance and size are NaN is returned as valid, with no error, since every comparison
  with NaN is false.
\<close>

theorem C8_validatePlanet_throws:
  "validatePlanet numericHost
     \<lparr>planet_object.name = JNum (Number 42), distance = JNum (Number 0),
      size_km = JNum (Number (- 5))\<rparr> = Inl TypeError \<and>
   validateStarSystem doubleArithmetic numericHost
     \<lparr>star_system.name = JStr ''Void'', description = JUndefined,
      planets = Some [\<lparr>planet_object.name = JNum (Number 42), distance = JNum (Number 0),
                       size_km = JNum (Number (- 5))\<rparr>]\<rparr> = Inl TypeError \<and>
   validatePlanet numericHost
     \<lparr>planet_object.name = JStr '' '', distance = JNum (Number 0),
      size_km = JNum (Number (- 5))\<rparr> =
     Inr \<lparr>planet_validation.isValid = False,
          errors = [''Planet name is required and must be a non-empty string'',
                    ''Distance must be a positive number (AU)'',
                    ''Size must be a positive number (km diameter)''],
          planet = \<lparr>validated_planet.name = JStr '''', distance = Number 0,
                     size_km = Number (- 5)\<rparr>\<rparr> \<and>
   validatePlanet numericHost
     \<lparr>planet_object.name = JStr ''Nox'', distance = JNum NaN, size_km = JNum NaN\<rparr> =
     Inr \<lparr>planet_validation.isValid = True, errors = [],
          planet = \<lparr>validated_planet.name = JStr ''Nox'', distance = NaN, size_km = NaN\<rparr>\<rparr>"
proof -
  have a: "validatePlanet numericHost
     \<lparr>planet_object.name = JNum (Number 42), distance = JNum (Number 0),
      size_km = JNum (Number (- 5))\<rparr> = Inl TypeError"
    by (simp add: validatePlanet_throws_iff)
  have b: "validateStarSystem doubleArithmetic numericHost
     \<lparr>star_system.name = JStr ''Void'', description = JUndefined,
      planets = Some [\<lparr>planet_object.name = JNum (Number 42), distance = JNum (Number 0),
                       size_km = JNum (Number (- 5))\<rparr>]\<rparr> = Inl TypeError"
    by (simp add: validateStarSystem_def Let_def validatePlanetStep_pair a)
  have c: "validatePlanet numericHost
     \<lparr>planet_object.name = JStr '' '', distance = JNum (Number 0),
      size_km = JNum (Number (- 5))\<rparr> =
     Inr \<lparr>planet_validation.isValid = False,
          errors = [''Planet name is required and must be a non-empty string'',
                    ''Distance must be a positive number (AU)'',
                    ''Size must be a positive number (km diameter)''],
          planet = \<lparr>validated_planet.name = JStr '''', distance = Number 0,
                     size_km = Number (- 5)\<rparr>\<rparr>"
    by (simp add: validation_eval)
  have d: "validatePlanet numericHost
     \<lparr>planet_object.name = JStr ''Nox'', distance = JNum NaN, size_km = JNum NaN\<rparr> =
     Inr \<lparr>planet_validation.isValid = True, errors = [],
          planet = \<lparr>validated_planet.name = JStr ''Nox'', distance = NaN, size_km = NaN\<rparr>\<rparr>"
    by (simp add: validation_eval)
  show ?thesis
    using a b c d by blast
qed




end
